theory Spec2Isabelle
  imports Complex_Main
begin

section \<open>JavaScript values and strings\<close>

text \<open>
  Both adapters are JavaScript/TypeScript. A JavaScript string is a sequence of UTF-16
  code units; the model carries the code units 0..255 as HOL characters, so \<open>string\<close>
  stands for the texts whose code units are all below 256. Values that come out of
  \<open>JSON.parse\<close> or are read as properties are \<open>jsval\<close>; a finite JSON number is a
  rational number, and \<open>JUndefined\<close> is what reading a missing property gives.
\<close>

datatype jsval =
    JUndefined
  | JNull
  | JBool bool
  | JNum rat
  | JStr string
  | JArr "jsval list"
  | JObj "(string \<times> jsval) list"

text \<open>Truthiness, as \<open>!x\<close>, \<open>x || y\<close> and \<open>x ? a : b\<close> use it.\<close>

fun truthy :: "jsval \<Rightarrow> bool" where
  "truthy JUndefined = False"
| "truthy JNull = False"
| "truthy (JBool b) = b"
| "truthy (JNum r) = (r \<noteq> 0)"
| "truthy (JStr s) = (s \<noteq> [])"
| "truthy (JArr xs) = True"
| "truthy (JObj kvs) = True"

text \<open>\<open>a || b\<close>.\<close>

definition js_or :: "jsval \<Rightarrow> jsval \<Rightarrow> jsval" where
  "js_or a b = (if truthy a then a else b)"

text \<open>An optional string argument (\<open>z.string().optional()\<close>): absent is \<open>undefined\<close>.\<close>

definition truthy_str :: "string option \<Rightarrow> bool" where
  "truthy_str a = (case a of None \<Rightarrow> False | Some s \<Rightarrow> s \<noteq> [])"

subsection \<open>String.prototype.split on a one-character separator, and trim\<close>

primrec split_on :: "char \<Rightarrow> string \<Rightarrow> string list" where
  "split_on c [] = [[]]"
| "split_on c (x # xs) =
     (if x = c then [] # split_on c xs
      else (x # hd (split_on c xs)) # tl (split_on c xs))"

text \<open>
  The white space and line terminators that \<open>trim\<close> removes, among the code units
  below 256: TAB, LF, VT, FF, CR, SP and NBSP.
\<close>

definition is_js_space :: "char \<Rightarrow> bool" where
  "is_js_space c = (c \<in> set [CHR 0x09, CHR 0x0A, CHR 0x0B, CHR 0x0C, CHR 0x0D, CHR 0x20, CHR 0xA0])"

definition trim :: "string \<Rightarrow> string" where
  "trim s = rev (dropWhile is_js_space (rev (dropWhile is_js_space s)))"


subsection \<open>Objects as ordered property lists\<close>

text \<open>Reading a property: a missing one reads as \<open>undefined\<close>.\<close>

definition get_prop :: "(string \<times> jsval) list \<Rightarrow> string \<Rightarrow> jsval" where
  "get_prop ps k = (case map_of ps k of None \<Rightarrow> JUndefined | Some v \<Rightarrow> v)"

text \<open>Assigning a property: an existing key keeps its place, a new key goes last.\<close>

fun set_prop :: "string \<Rightarrow> jsval \<Rightarrow> (string \<times> jsval) list \<Rightarrow> (string \<times> jsval) list" where
  "set_prop k v [] = [(k, v)]"
| "set_prop k v ((k', v') # ps) =
     (if k' = k then (k, v) # ps else (k', v') # set_prop k v ps)"

text \<open>Decimal digits of a natural number, as \<open>String(n)\<close> prints an array index.\<close>

definition digit_char :: "nat \<Rightarrow> char" where
  "digit_char d = ''0123456789'' ! d"

fun show_nat :: "nat \<Rightarrow> string" where
  "show_nat n =
     (if n < 10 then [digit_char n]
      else show_nat (n div 10) @ [digit_char (n mod 10)])"

declare show_nat.simps [simp del]

text \<open>
  The own enumerable properties that object spread \<open>{...x}\<close> copies from \<open>x\<close>: the
  entries of an object, the indexed elements of an array, the indexed characters of a
  string, and nothing for \<open>null\<close>, \<open>undefined\<close>, a number or a boolean.
\<close>

fun own_props :: "jsval \<Rightarrow> (string \<times> jsval) list" where
  "own_props (JObj ps) = ps"
| "own_props (JArr xs) = zip (map show_nat [0..<length xs]) xs"
| "own_props (JStr s) = zip (map show_nat [0..<length s]) (map (\<lambda>c. JStr [c]) s)"
| "own_props v = []"

text \<open>\<open>{...base, ...extra}\<close>.\<close>

definition spread :: "(string \<times> jsval) list \<Rightarrow> jsval \<Rightarrow> (string \<times> jsval) list" where
  "spread base extra = fold (\<lambda>(k, v). set_prop k v) (own_props extra) base"

section \<open>Errors\<close>

text \<open>
  Every value the two adapters throw or catch is an \<open>Error\<close> instance: the two classes
  of client.ts (message; message and status), or a built-in error, kept by its
  \<open>name\<close>, its \<open>message\<close> and the \<open>code\<close> of its \<open>cause\<close> when it has one.
\<close>

datatype js_error =
    CogneeUnavailableError string
  | CogneeAPIError string nat
  | BuiltinError string string "string option"

fun error_message :: "js_error \<Rightarrow> string" where
  "error_message (CogneeUnavailableError m) = m"
| "error_message (CogneeAPIError m st) = m"
| "error_message (BuiltinError n m c) = m"

fun error_name :: "js_error \<Rightarrow> string" where
  "error_name (CogneeUnavailableError m) = ''CogneeUnavailableError''"
| "error_name (CogneeAPIError m st) = ''CogneeAPIError''"
| "error_name (BuiltinError n m c) = n"

fun cause_code :: "js_error \<Rightarrow> string option" where
  "cause_code (BuiltinError n m c) = c"
| "cause_code e = None"

section \<open>Configuration loading\<close>

text \<open>
  What \<open>loadConfig\<close> finds at the configuration path: no file (\<open>existsSync\<close> is
  false), a file that \<open>readFileSync\<close> cannot read, a file whose text \<open>JSON.parse\<close>
  rejects, or a file with the value \<open>JSON.parse\<close> returns for it.
\<close>

datatype config_file =
    FileAbsent
  | FileUnreadable
  | FileUnparsable
  | FileJson jsval

text \<open>\<open>DEFAULT_CONFIG\<close> of the Gemini extension (config.js).\<close>

definition DEFAULT_CONFIG_gemini :: "(string \<times> jsval) list" where
  "DEFAULT_CONFIG_gemini =
     [(''cogneeUrl'', JStr ''http://localhost:8000''),
      (''datasetName'', JStr ''default_user''),
      (''similarityThreshold'', JNum (7 / 10)),
      (''maxMemories'', JNum 5),
      (''keywordPatterns'',
         JArr [JStr ''remember'', JStr ''note'', JStr ''save this'', JStr ''important'',
               JStr ''don't forget'', JStr ''keep in mind'']),
      (''injection'',
         JObj [(''searchType'', JStr ''CHUNKS''), (''topK'', JNum 3), (''timeout'', JNum 2000)])]"

text \<open>\<open>DEFAULT_CONFIG\<close> of the OpenCode plugin (config.ts).\<close>

definition DEFAULT_CONFIG_opencode :: "(string \<times> jsval) list" where
  "DEFAULT_CONFIG_opencode =
     [(''cogneeUrl'', JStr ''http://localhost:8000''),
      (''similarityThreshold'', JNum (7 / 10)),
      (''maxMemories'', JNum 5),
      (''keywordPatterns'',
         JArr [JStr ''remember'', JStr ''note'', JStr ''save this'', JStr ''important'',
               JStr ''don't forget'', JStr ''keep in mind'']),
      (''compaction'', JObj [(''auto'', JBool False), (''prune'', JBool True)]),
      (''injection'', JObj [(''searchType'', JStr ''CHUNKS''), (''topK'', JNum 3)])]"

text \<open>
  The \<open>try\<close> block of \<open>loadConfig\<close>: it returns the merged configuration, falls through
  (\<open>None\<close>) when there is no file, or throws what \<open>readFileSync\<close> or \<open>JSON.parse\<close>
  throws.
\<close>

definition read_config ::
  "(string \<times> jsval) list \<Rightarrow> config_file \<Rightarrow> js_error + (string \<times> jsval) list option" where
  "read_config defaults f =
     (case f of
        FileAbsent \<Rightarrow> Inr None
      | FileUnreadable \<Rightarrow> Inl (BuiltinError ''Error'' ''EACCES: permission denied'' None)
      | FileUnparsable \<Rightarrow> Inl (BuiltinError ''SyntaxError'' ''Unexpected token'' None)
      | FileJson userConfig \<Rightarrow> Inr (Some (spread defaults userConfig)))"

text \<open>
  \<open>loadConfig\<close> of config.js: the \<open>catch\<close> logs and falls through to
  \<open>return { ...DEFAULT_CONFIG }\<close>.
\<close>

definition loadConfig_gemini :: "config_file \<Rightarrow> js_error + (string \<times> jsval) list" where
  "loadConfig_gemini f =
     (case read_config DEFAULT_CONFIG_gemini f of
        Inr (Some c) \<Rightarrow> Inr c
      | Inr None \<Rightarrow> Inr (spread DEFAULT_CONFIG_gemini (JObj []))
      | Inl e \<Rightarrow> Inr (spread DEFAULT_CONFIG_gemini (JObj [])))"

text \<open>\<open>loadConfig\<close> of config.ts: the same, ending in \<open>return DEFAULT_CONFIG\<close>.\<close>

definition loadConfig_opencode :: "config_file \<Rightarrow> js_error + (string \<times> jsval) list" where
  "loadConfig_opencode f =
     (case read_config DEFAULT_CONFIG_opencode f of
        Inr (Some c) \<Rightarrow> Inr c
      | Inr None \<Rightarrow> Inr DEFAULT_CONFIG_opencode
      | Inl e \<Rightarrow> Inr DEFAULT_CONFIG_opencode)"

section \<open>The remote service and \<open>fetch\<close>\<close>

text \<open>
  A request as \<open>fetch\<close> sends it. A JSON body is kept as the value handed to
  \<open>JSON.stringify\<close>, a multipart body as the fields appended to the \<open>FormData\<close>
  (the text of the \<open>data\<close> blob, its file name, \<open>datasetName\<close> and the \<open>node_set\<close>
  fields in order).
\<close>

datatype req_body =
    NoBody
  | JsonBody jsval
  | FormBody string string string "string list"

text \<open>
  The abort signal of a request: an \<open>AbortController\<close> aborted by a \<open>setTimeout\<close> of
  so many milliseconds, or \<open>AbortSignal.timeout\<close>.
\<close>

datatype signal = AbortAfter nat | TimeoutSignal nat

record request =
  req_method :: string
  req_url :: string
  req_headers :: "(string \<times> string) list"
  req_body :: req_body
  req_signal :: "signal option"

text \<open>
  A response: its status, the text of its body (\<open>response.text()\<close>) and what
  \<open>JSON.parse\<close> makes of that text (\<open>response.json()\<close>; \<open>None\<close> when it is not JSON).
  The body comes with the response.
\<close>

record response =
  status :: nat
  body_text :: string
  body_json :: "jsval option"

definition ok :: "response \<Rightarrow> bool" where
  "ok r = (200 \<le> status r \<and> status r \<le> 299)"

text \<open>
  What the network and the service do with one request: the connection fails after some
  milliseconds (with the \<open>code\<close> of the failure's cause), a response arrives after some
  milliseconds, or nothing ever comes back.
\<close>

datatype fetch_outcome =
    Unreachable nat "string option"
  | Responds nat response
  | Silent

text \<open>
  The world of a run: the requests sent so far, the toasts shown so far (message and
  variant), and how often the clock has been read.
\<close>

record world =
  sent :: "request list"
  toasts :: "(string \<times> string) list"
  ticks :: nat

text \<open>
  The environment of a run: how the service answers a request, given the requests sent
  before it; what the clock shows at its \<open>n\<close>-th reading (milliseconds since the
  epoch); the runtime's \<open>JSON.stringify\<close> and \<open>String\<close> on values other than
  \<open>undefined\<close>; and the service address and token (\<open>COGNEE_URL\<close>,
  \<open>COGNEE_API_TOKEN\<close>).
\<close>

record env =
  service :: "request list \<Rightarrow> request \<Rightarrow> fetch_outcome"
  clock :: "nat \<Rightarrow> int"
  JSON_stringify :: "jsval \<Rightarrow> string"
  String_of :: "jsval \<Rightarrow> string"
  COGNEE_URL :: string
  COGNEE_API_TOKEN :: "string option"

text \<open>
  An asynchronous computation, awaited: from a world it returns a value (\<open>Inr\<close>) or
  throws (\<open>Inl\<close>) in a new world, or never settles (\<open>None\<close>).
\<close>

type_synonym 'a io = "world \<Rightarrow> ((js_error + 'a) \<times> world) option"

definition io_return :: "'a \<Rightarrow> 'a io" where
  "io_return x w = Some (Inr x, w)"

definition io_throw :: "js_error \<Rightarrow> 'a io" where
  "io_throw e w = Some (Inl e, w)"

definition io_bind :: "'a io \<Rightarrow> ('a \<Rightarrow> 'b io) \<Rightarrow> 'b io" where
  "io_bind m f w =
     (case m w of
        None \<Rightarrow> None
      | Some (Inl e, w') \<Rightarrow> Some (Inl e, w')
      | Some (Inr x, w') \<Rightarrow> f x w')"

text \<open>\<open>try { m } catch (error) { h error }\<close>.\<close>

definition io_catch :: "'a io \<Rightarrow> (js_error \<Rightarrow> 'a io) \<Rightarrow> 'a io" where
  "io_catch m h w =
     (case m w of
        None \<Rightarrow> None
      | Some (Inl e, w') \<Rightarrow> h e w'
      | Some (Inr x, w') \<Rightarrow> Some (Inr x, w'))"

text \<open>A synchronous result inside an asynchronous computation.\<close>

definition io_lift :: "js_error + 'a \<Rightarrow> 'a io" where
  "io_lift r w = Some (r, w)"

definition signal_ms :: "signal \<Rightarrow> nat" where
  "signal_ms sg = (case sg of AbortAfter ms \<Rightarrow> ms | TimeoutSignal ms \<Rightarrow> ms)"

definition abort_error :: "signal \<Rightarrow> js_error" where
  "abort_error sg =
     (case sg of
        AbortAfter ms \<Rightarrow> BuiltinError ''AbortError'' ''This operation was aborted'' None
      | TimeoutSignal ms \<Rightarrow>
          BuiltinError ''TimeoutError'' ''The operation was aborted due to timeout'' None)"

text \<open>
  \<open>await fetch(url, options)\<close>. The request is sent. Without a signal the call settles
  when the network does, and never if nothing comes back. With a signal it rejects with
  the signal's error unless the network settles before the signal's time.
\<close>

definition fetch :: "env \<Rightarrow> request \<Rightarrow> response io" where
  "fetch e req w =
     (let w' = w\<lparr>sent := sent w @ [req]\<rparr> in
      case service e (sent w) req of
        Unreachable d code \<Rightarrow>
          (case req_signal req of
             None \<Rightarrow> Some (Inl (BuiltinError ''TypeError'' ''fetch failed'' code), w')
           | Some sg \<Rightarrow>
               if d < signal_ms sg
               then Some (Inl (BuiltinError ''TypeError'' ''fetch failed'' code), w')
               else Some (Inl (abort_error sg), w'))
      | Responds d r \<Rightarrow>
          (case req_signal req of
             None \<Rightarrow> Some (Inr r, w')
           | Some sg \<Rightarrow>
               if d < signal_ms sg then Some (Inr r, w') else Some (Inl (abort_error sg), w'))
      | Silent \<Rightarrow>
          (case req_signal req of
             None \<Rightarrow> None
           | Some sg \<Rightarrow> Some (Inl (abort_error sg), w')))"

text \<open>\<open>await response.json()\<close>: a body that is not JSON throws a \<open>SyntaxError\<close>.\<close>

definition response_json :: "response \<Rightarrow> jsval io" where
  "response_json r =
     (case body_json r of
        None \<Rightarrow> io_throw (BuiltinError ''SyntaxError'' ''Unexpected token in JSON'' None)
      | Some v \<Rightarrow> io_return v)"

subsection \<open>Reading properties of values\<close>

definition type_error :: "string \<Rightarrow> js_error" where
  "type_error m = BuiltinError ''TypeError'' m None"

text \<open>
  \<open>v.k\<close> for the property names the adapters read (none of them inherited from a
  prototype): \<open>null\<close> and \<open>undefined\<close> throw, an object gives its entry, an array or
  a string its length or indexed element, a number or a boolean \<open>undefined\<close>. An object
  as \<open>JSON.parse\<close> builds it holds each key once.
\<close>

fun peek :: "jsval \<Rightarrow> string \<Rightarrow> jsval" where
  "peek (JObj ps) k = get_prop ps k"
| "peek (JArr xs) k =
     (if k = ''length'' then JNum (of_nat (length xs)) else get_prop (own_props (JArr xs)) k)"
| "peek (JStr s) k =
     (if k = ''length'' then JNum (of_nat (length s)) else get_prop (own_props (JStr s)) k)"
| "peek v k = JUndefined"

definition nullish :: "jsval \<Rightarrow> bool" where
  "nullish v = (v = JUndefined \<or> v = JNull)"

definition js_get :: "jsval \<Rightarrow> string \<Rightarrow> js_error + jsval" where
  "js_get v k =
     (if nullish v then Inl (type_error (''Cannot read properties of null or undefined (reading '' @ k @ '')''))
      else Inr (peek v k))"

section \<open>The memory clients\<close>

text \<open>A search result: \<open>{content, metadata?}\<close>; \<open>None\<close> is an object without the key.\<close>

record search_result =
  content :: jsval
  metadata :: "jsval option"

text \<open>\<open>xs.map(f)\<close> and a \<open>for ... of\<close> loop that collect results: the first throw ends them.\<close>

fun map_result :: "('a \<Rightarrow> js_error + 'b) \<Rightarrow> 'a list \<Rightarrow> js_error + 'b list" where
  "map_result f [] = Inr []"
| "map_result f (x # xs) =
     (case f x of
        Inl err \<Rightarrow> Inl err
      | Inr y \<Rightarrow> (case map_result f xs of Inl err \<Rightarrow> Inl err | Inr ys \<Rightarrow> Inr (y # ys)))"

subsection \<open>client.ts (OpenCode plugin)\<close>

record CogneeClient =
  baseUrl :: string
  apiToken :: "string option"

text \<open>The constructor removes one trailing slash: \<^verbatim>\<open>baseUrl.replace(/\/$/, '')\<close>.\<close>

definition new_CogneeClient :: "string \<Rightarrow> string option \<Rightarrow> CogneeClient" where
  "new_CogneeClient url token =
     \<lparr>baseUrl = (if url \<noteq> [] \<and> last url = CHR ''/'' then butlast url else url),
      apiToken = token\<rparr>"

definition bearer :: "string option \<Rightarrow> (string \<times> string) list" where
  "bearer token =
     (if truthy_str token then [(''Authorization'', ''Bearer '' @ the token)] else [])"

definition getHeaders :: "CogneeClient \<Rightarrow> (string \<times> string) list" where
  "getHeaders c = (''Content-Type'', ''application/json'') # bearer (apiToken c)"

record AddResponse =
  success :: bool
  message :: "string option"

definition cannot_connect :: js_error where
  "cannot_connect = CogneeUnavailableError ''Cannot connect to Cognee server''"

definition addMemory_opencode ::
  "env \<Rightarrow> CogneeClient \<Rightarrow> string \<Rightarrow> string \<Rightarrow> string list \<Rightarrow> AddResponse io" where
  "addMemory_opencode e c text datasetName nodeSets =
     io_bind
       (io_catch
          (fetch e \<lparr>req_method = ''POST'', req_url = baseUrl c @ ''/api/v1/add'',
                    req_headers = bearer (apiToken c),
                    req_body = FormBody text ''memory.txt'' datasetName nodeSets,
                    req_signal = None\<rparr>)
          (\<lambda>error. io_throw cannot_connect))
       (\<lambda>response.
          if \<not> ok response
          then io_throw (CogneeAPIError (''Cognee add failed: '' @ body_text response)
                                       (status response))
          else io_return \<lparr>success = True, message = None\<rparr>)"

text \<open>
  \<open>cognify(datasetName, {useCustomOntology, temporalCognify})\<close>; the options default to
  \<open>false\<close> and \<open>true\<close>.
\<close>

definition cognify_body :: "string \<Rightarrow> bool \<Rightarrow> bool \<Rightarrow> jsval" where
  "cognify_body datasetName useCustomOntology temporalCognify =
     JObj ([(''datasets'', JArr [JStr datasetName])]
           @ (if temporalCognify then [(''temporal_cognify'', JBool True)] else [])
           @ (if useCustomOntology \<and> \<not> temporalCognify
              then [(''graph_model_file'',
                       JStr ''/home/default_user/cognee/opencode-cognee/memory_ontology.py''),
                    (''graph_model_name'', JStr ''CategorizedMemory'')]
              else []))"

definition cognify_opencode ::
  "env \<Rightarrow> CogneeClient \<Rightarrow> string \<Rightarrow> bool \<Rightarrow> bool \<Rightarrow> AddResponse io" where
  "cognify_opencode e c datasetName useCustomOntology temporalCognify =
     io_bind
       (io_catch
          (fetch e \<lparr>req_method = ''POST'', req_url = baseUrl c @ ''/api/v1/cognify'',
                    req_headers = getHeaders c,
                    req_body = JsonBody (cognify_body datasetName useCustomOntology temporalCognify),
                    req_signal = None\<rparr>)
          (\<lambda>error. io_throw cannot_connect))
       (\<lambda>response.
          if \<not> ok response
          then io_throw (CogneeAPIError (''Cognee cognify failed: '' @ body_text response)
                                       (status response))
          else io_return \<lparr>success = True, message = None\<rparr>)"

text \<open>One element of an array payload, in \<open>extractSearchResults\<close>: no or one result.\<close>

definition extract_item :: "jsval \<Rightarrow> js_error + search_result list" where
  "extract_item item =
     (case item of
        JStr s \<Rightarrow> Inr [\<lparr>content = JStr s, metadata = None\<rparr>]
      | _ \<Rightarrow>
          if nullish item then Inl (type_error ''Cannot read properties of null (reading content)'')
          else if truthy (js_or (peek item ''content'')
                            (js_or (peek item ''text'') (peek item ''result'')))
          then Inr [\<lparr>content = js_or (peek item ''content'')
                                  (js_or (peek item ''text'') (peek item ''result'')),
                     metadata = Some (js_or (peek item ''metadata'') item)\<rparr>]
          else Inr [])"

definition extract_array :: "jsval list \<Rightarrow> js_error + search_result list" where
  "extract_array items =
     (case map_result extract_item items of
        Inl err \<Rightarrow> Inl err
      | Inr rs \<Rightarrow> Inr (concat rs))"

text \<open>
  \<open>extractSearchResults\<close>. Its one recursive call, on \<open>data.results\<close>, is made when that
  is an array, so it runs the array branch.
\<close>

definition extractSearchResults :: "jsval \<Rightarrow> js_error + search_result list" where
  "extractSearchResults data =
     (case data of
        JArr items \<Rightarrow> extract_array items
      | JStr s \<Rightarrow> Inr [\<lparr>content = JStr s, metadata = None\<rparr>]
      | _ \<Rightarrow>
          (case js_get data ''results'' of
             Inl err \<Rightarrow> Inl err
           | Inr (JArr items) \<Rightarrow> extract_array items
           | Inr other \<Rightarrow> Inr []))"

definition search_body :: "jsval \<Rightarrow> string \<Rightarrow> rat \<Rightarrow> string option \<Rightarrow> jsval" where
  "search_body query searchType topK sessionId =
     JObj ([(''query'', query), (''search_type'', JStr searchType), (''top_k'', JNum topK)]
           @ (if truthy_str sessionId then [(''session_id'', JStr (the sessionId))] else []))"

text \<open>
  \<open>searchMemories(query, searchType, topK, sessionId, timeoutMs)\<close>; the callers' defaults
  are \<open>CHUNKS\<close>, 5 and 3000.
\<close>

definition searchMemories_opencode ::
  "env \<Rightarrow> CogneeClient \<Rightarrow> string \<Rightarrow> string \<Rightarrow> rat \<Rightarrow> string option \<Rightarrow> nat
     \<Rightarrow> search_result list io" where
  "searchMemories_opencode e c query searchType topK sessionId timeoutMs =
     io_bind
       (io_catch
          (fetch e \<lparr>req_method = ''POST'', req_url = baseUrl c @ ''/api/v1/search'',
                    req_headers = getHeaders c,
                    req_body = JsonBody (search_body (JStr query) searchType topK sessionId),
                    req_signal = Some (AbortAfter timeoutMs)\<rparr>)
          (\<lambda>error.
             if error_name error = ''AbortError''
             then io_throw (CogneeUnavailableError ''Cognee search timed out'')
             else io_throw cannot_connect))
       (\<lambda>response.
          if \<not> ok response
          then io_throw (CogneeAPIError (''Cognee search failed: '' @ body_text response)
                                       (status response))
          else io_bind (response_json response) (\<lambda>data. io_lift (extractSearchResults data)))"

definition listDatasets_opencode :: "env \<Rightarrow> CogneeClient \<Rightarrow> jsval list io" where
  "listDatasets_opencode e c =
     io_bind
       (io_catch
          (fetch e \<lparr>req_method = ''GET'', req_url = baseUrl c @ ''/api/v1/datasets'',
                    req_headers = getHeaders c, req_body = NoBody, req_signal = None\<rparr>)
          (\<lambda>error. io_throw cannot_connect))
       (\<lambda>response.
          if \<not> ok response
          then io_throw (CogneeAPIError (''Cognee list datasets failed: '' @ body_text response)
                                       (status response))
          else io_bind (response_json response)
                 (\<lambda>data. io_return (case data of JArr ds \<Rightarrow> ds | _ \<Rightarrow> [])))"


subsection \<open>server.js (Gemini extension)\<close>

definition server_unavailable :: js_error where
  "server_unavailable =
     BuiltinError ''Error''
       ''Cognee server unavailable. Start it with: uv run python -m cognee.api.client'' None"

text \<open>
  \<open>cogneeRequest(endpoint, options)\<close>: its \<open>catch\<close> also sees the errors thrown inside
  the \<open>try\<close> for a status that is not ok and for a body that is not JSON, and rethrows
  them (they have no \<open>cause\<close>).
\<close>

definition cogneeRequest :: "env \<Rightarrow> string \<Rightarrow> string \<Rightarrow> req_body \<Rightarrow> jsval io" where
  "cogneeRequest e endpoint meth body =
     io_catch
       (io_bind
          (fetch e \<lparr>req_method = meth, req_url = COGNEE_URL e @ endpoint,
                    req_headers = (''Content-Type'', ''application/json'')
                                    # bearer (COGNEE_API_TOKEN e),
                    req_body = body, req_signal = None\<rparr>)
          (\<lambda>response.
             if \<not> ok response
             then io_throw (BuiltinError ''Error''
                    (''Cognee API error ('' @ show_nat (status response) @ ''): ''
                       @ body_text response) None)
             else response_json response))
       (\<lambda>error.
          if cause_code error = Some ''ECONNREFUSED'' then io_throw server_unavailable
          else io_throw error)"


definition addMemory_gemini :: "env \<Rightarrow> string \<Rightarrow> string \<Rightarrow> string list \<Rightarrow> AddResponse io" where
  "addMemory_gemini e text datasetName nodeSets =
     io_bind
       (fetch e \<lparr>req_method = ''POST'', req_url = COGNEE_URL e @ ''/api/v1/add'',
                 req_headers = bearer (COGNEE_API_TOKEN e),
                 req_body = FormBody text ''memory.txt'' datasetName nodeSets,
                 req_signal = None\<rparr>)
       (\<lambda>response.
          if \<not> ok response
          then io_throw (BuiltinError ''Error''
                 (''Failed to add memory: '' @ show_nat (status response)) None)
          else io_return \<lparr>success = True, message = None\<rparr>)"

definition cognify_gemini :: "env \<Rightarrow> string \<Rightarrow> bool \<Rightarrow> jsval io" where
  "cognify_gemini e datasetName temporalCognify =
     cogneeRequest e ''/api/v1/cognify'' ''POST''
       (JsonBody (JObj [(''datasets'', JArr [JStr datasetName]),
                        (''temporal_cognify'', JBool temporalCognify)]))"

text \<open>One element of an array payload, in the \<open>map\<close> of \<open>searchMemories\<close>.\<close>

definition normalize_item :: "env \<Rightarrow> jsval \<Rightarrow> js_error + search_result" where
  "normalize_item e item =
     (case item of
        JStr s \<Rightarrow> Inr \<lparr>content = JStr s, metadata = None\<rparr>
      | _ \<Rightarrow>
          if nullish item then Inl (type_error ''Cannot read properties of null (reading content)'')
          else Inr \<lparr>content = js_or (peek item ''content'')
                                 (js_or (peek item ''text'')
                                    (js_or (peek item ''result'') (JStr (JSON_stringify e item)))),
                    metadata = None\<rparr>)"

definition is_array :: "jsval \<Rightarrow> bool" where
  "is_array v = (case v of JArr xs \<Rightarrow> True | _ \<Rightarrow> False)"

definition elements :: "jsval \<Rightarrow> jsval list" where
  "elements v = (case v of JArr xs \<Rightarrow> xs | _ \<Rightarrow> [])"

text \<open>
  \<open>searchMemories(query, searchType, topK, sessionId)\<close> of server.js. For a payload with
  a truthy \<open>results\<close> property it calls itself with that property as the query (and the
  default search type and top-K): another request is sent, and so on for as long as the
  answers have that shape.
\<close>

partial_function (option) searchMemories_gemini ::
  "env \<Rightarrow> jsval \<Rightarrow> string \<Rightarrow> rat \<Rightarrow> string option \<Rightarrow> world
     \<Rightarrow> ((js_error + search_result list) \<times> world) option" where
  "searchMemories_gemini e query searchType topK sessionId w =
     (case cogneeRequest e ''/api/v1/search'' ''POST''
             (JsonBody (search_body query searchType topK sessionId)) w of
        None \<Rightarrow> None
      | Some (Inl err, w') \<Rightarrow> Some (Inl err, w')
      | Some (Inr result, w') \<Rightarrow>
          if is_array result
          then Some (map_result (normalize_item e) (elements result), w')
          else (case js_get result ''results'' of
                  Inl err \<Rightarrow> Some (Inl err, w')
                | Inr rs \<Rightarrow>
                    if truthy rs
                    then searchMemories_gemini e rs ''GRAPH_COMPLETION'' 10 None w'
                    else Some (Inr [\<lparr>content = JStr (String_of e result), metadata = None\<rparr>],
                               w')))"

definition listDatasets_gemini :: "env \<Rightarrow> jsval io" where
  "listDatasets_gemini e = cogneeRequest e ''/api/v1/datasets'' ''GET'' NoBody"

section \<open>Memory trigger detection\<close>

text \<open>
  before-agent.js and the OpenCode plugin hold the same three regular expressions and the
  same \<open>removeCodeBlocks\<close>:
  \<^verbatim>\<open>CODE_BLOCK_PATTERN = /```[\s\S]*?```/g\<close>,
  \<^verbatim>\<open>INLINE_CODE_PATTERN = /`[^`]+`/g\<close> and
  \<^verbatim>\<open>new RegExp(`\\b(${config.keywordPatterns.join('|')})\\b`, 'i')\<close>.
  Their matching is written out below as the regular-expression engine performs it.
\<close>

definition backtick :: char where
  "backtick = CHR 0x60"

definition fence :: string where
  "fence = [backtick, backtick, backtick]"

definition starts_with :: "string \<Rightarrow> string \<Rightarrow> bool" where
  "starts_with s p = (take (length p) s = p)"

text \<open>
  The lazy \<^verbatim>\<open>[\s\S]*?```\<close> after an opening fence: the text after the nearest closing
  fence, if there is one.
\<close>

fun after_fence :: "string \<Rightarrow> string option" where
  "after_fence [] = None"
| "after_fence (c # cs) =
     (if starts_with (c # cs) fence then Some (drop 3 (c # cs)) else after_fence cs)"

lemma after_fence_length: "after_fence s = Some r \<Longrightarrow> length r < length s"
  by (induction s) (auto simp: starts_with_def fence_def split: if_splits)

text \<open>
  \<^verbatim>\<open>text.replace(CODE_BLOCK_PATTERN, '')\<close>: from left to right, a fence with a closing
  fence after it is deleted with everything between them, and matching goes on after the
  closing fence; any other character is kept.
\<close>

function strip_fenced :: "string \<Rightarrow> string" where
  "strip_fenced [] = []"
| "strip_fenced (c # cs) =
     (if starts_with (c # cs) fence
      then (case after_fence (drop 3 (c # cs)) of
              Some rest \<Rightarrow> strip_fenced rest
            | None \<Rightarrow> c # strip_fenced cs)
      else c # strip_fenced cs)"
  by pat_completeness auto
termination
proof (relation "measure length")
  show "wf (measure length)" by simp
next
  fix c cs rest
  assume "after_fence (drop 3 (c # cs)) = Some rest"
  then have "length rest < length (drop 3 (c # cs))" by (rule after_fence_length)
  then show "(rest, c # cs) \<in> measure length" by simp
qed simp_all

text \<open>
  \<^verbatim>\<open>text.replace(INLINE_CODE_PATTERN, '')\<close>: a backtick, one or more characters that
  are not backticks, and a backtick are deleted together.
\<close>

function strip_inline :: "string \<Rightarrow> string" where
  "strip_inline [] = []"
| "strip_inline (c # cs) =
     (if c = backtick \<and> takeWhile (\<lambda>x. x \<noteq> backtick) cs \<noteq> []
         \<and> dropWhile (\<lambda>x. x \<noteq> backtick) cs \<noteq> []
      then strip_inline (tl (dropWhile (\<lambda>x. x \<noteq> backtick) cs))
      else c # strip_inline cs)"
  by pat_completeness auto
termination
proof (relation "measure length")
  show "wf (measure length)" by simp
next
  fix c :: char and cs :: string
  have "length (tl (dropWhile (\<lambda>x. x \<noteq> backtick) cs)) \<le> length cs"
    by (metis length_dropWhile_le length_tl diff_le_self le_trans)
  then show "(tl (dropWhile (\<lambda>x. x \<noteq> backtick) cs), c # cs) \<in> measure length" by simp
qed simp_all

definition removeCodeBlocks :: "string \<Rightarrow> string" where
  "removeCodeBlocks text = strip_inline (strip_fenced text)"

text \<open>\<^verbatim>\<open>\w\<close>: the word characters that \<^verbatim>\<open>\b\<close> looks at are \<open>[A-Za-z0-9_]\<close>.\<close>

definition is_word_char :: "char \<Rightarrow> bool" where
  "is_word_char c =
     (let n = (of_char c :: nat)
      in (97 \<le> n \<and> n \<le> 122) \<or> (65 \<le> n \<and> n \<le> 90) \<or> (48 \<le> n \<and> n \<le> 57) \<or> n = 95)"

text \<open>
  The \<open>i\<close> flag compares characters by the code unit of their upper case: the letters
  a to z, and the lower-case letters of the range 224 to 254 (247 is the division sign),
  are 32 above their upper case. (The upper cases of 181 and 255 lie above 255 and equal
  no other character of the model, and that of 223 is two characters long; those three
  compare as themselves.)
\<close>

definition canonicalize :: "char \<Rightarrow> nat" where
  "canonicalize c =
     (let n = (of_char c :: nat)
      in if (97 \<le> n \<and> n \<le> 122) \<or> (224 \<le> n \<and> n \<le> 254 \<and> n \<noteq> 247)
         then n - 32 else n)"

text \<open>One alternative at the current position: the text left after it, if it matches.\<close>

primrec match_prefix :: "string \<Rightarrow> string \<Rightarrow> string option" where
  "match_prefix [] t = Some t"
| "match_prefix (k # ks) t =
     (case t of
        [] \<Rightarrow> None
      | c # cs \<Rightarrow> if canonicalize k = canonicalize c then match_prefix ks cs else None)"

definition starts_word :: "string \<Rightarrow> bool" where
  "starts_word t = (case t of [] \<Rightarrow> False | c # cs \<Rightarrow> is_word_char c)"

text \<open>
  \<^verbatim>\<open>\b(k)\b\<close> at the current position of the text \<open>t\<close>, \<open>prev\<close> telling whether the
  character before the position is a word character: \<^verbatim>\<open>\b\<close> holds where exactly one
  of the characters before and after is a word character.
\<close>

definition keyword_here :: "bool \<Rightarrow> string \<Rightarrow> string \<Rightarrow> bool" where
  "keyword_here prev k t =
     (case match_prefix k t of
        None \<Rightarrow> False
      | Some rest \<Rightarrow>
          prev \<noteq> starts_word t
          \<and> (if k = [] then prev else is_word_char (last (take (length k) t)))
              \<noteq> starts_word rest)"

text \<open>\<open>test\<close> tries every position from the left, and at each every alternative.\<close>

fun scan_keywords :: "string list \<Rightarrow> bool \<Rightarrow> string \<Rightarrow> bool" where
  "scan_keywords ks prev [] = (\<exists>k \<in> set ks. keyword_here prev k [])"
| "scan_keywords ks prev (c # cs) =
     ((\<exists>k \<in> set ks. keyword_here prev k (c # cs)) \<or> scan_keywords ks (is_word_char c) cs)"

text \<open>
  \<open>MEMORY_KEYWORDS.test(t)\<close> (\<open>MEMORY_KEYWORD_PATTERN\<close> in the plugin). The keyword
  patterns are regular-expression source joined with \<open>|\<close>; the model reads each as
  literal text, which it is when it holds none of the characters of
  \<open>regex_metachars\<close>. An empty list joins to the empty pattern.
\<close>

definition MEMORY_KEYWORDS_test :: "string list \<Rightarrow> string \<Rightarrow> bool" where
  "MEMORY_KEYWORDS_test keywordPatterns t =
     scan_keywords (if keywordPatterns = [] then [[]] else keywordPatterns) False t"



text \<open>
  \<open>detectMemoryKeyword\<close> of the plugin; before-agent.js computes the same inline, as
  \<open>MEMORY_KEYWORDS.test(removeCodeBlocks(prompt))\<close>.
\<close>

definition detectMemoryKeyword :: "string list \<Rightarrow> string \<Rightarrow> bool" where
  "detectMemoryKeyword keywordPatterns text =
     MEMORY_KEYWORDS_test keywordPatterns (removeCodeBlocks text)"

text \<open>The \<open>keywordPatterns\<close> of both default configurations.\<close>

definition default_keywordPatterns :: "string list" where
  "default_keywordPatterns =
     [''remember'', ''note'', ''save this'', ''important'', ''don't forget'', ''keep in mind'']"







section \<open>Example environments\<close>

text \<open>
  A concrete environment for worked examples: the service and the clock are given, the
  address is the default one and no token is set.
\<close>

definition example_env :: "(request list \<Rightarrow> request \<Rightarrow> fetch_outcome) \<Rightarrow> (nat \<Rightarrow> int) \<Rightarrow> env" where
  "example_env srv clk =
     \<lparr>service = srv, clock = clk,
      JSON_stringify = (\<lambda>v. ''{}''), String_of = (\<lambda>v. ''[object Object]''),
      COGNEE_URL = ''http://localhost:8000'', COGNEE_API_TOKEN = None\<rparr>"

definition world0 :: world where
  "world0 = \<lparr>sent = [], toasts = [], ticks = 0\<rparr>"

definition example_client :: CogneeClient where
  "example_client = new_CogneeClient ''http://localhost:8000'' None"


text \<open>
  A service that answers the first request with status 200 and the JSON body
  \<^verbatim>\<open>{"results": ["a"]}\<close>, and every later one with status 500.
\<close>

definition results_then_error :: "request list \<Rightarrow> request \<Rightarrow> fetch_outcome" where
  \<open>results_then_error history req =
     (if history = []
      then Responds 5 \<lparr>status = 200, body_text = ''{"results": ["a"]}'',
                        body_json = Some (JObj [(''results'', JArr [JStr ''a''])])\<rparr>
      else Responds 5 \<lparr>status = 500, body_text = ''Internal Server Error'', body_json = None\<rparr>)\<close>


section \<open>The add action's node sets\<close>

text \<open>
  Both tool handlers (server.js and the OpenCode plugin) compute
  \<^verbatim>\<open>args.tags ? args.tags.split(',').map(t => t.trim()).filter(t => t.length > 0)
            : ['user_memories']\<close>.
\<close>

definition nodeSets :: "string option \<Rightarrow> string list" where
  "nodeSets tags =
     (if truthy_str tags
      then filter (\<lambda>t. length t > 0) (map trim (split_on CHR '','' (the tags)))
      else [''user_memories''])"

section \<open>Requests named in the properties\<close>



text \<open>The request of the plugin client's \<open>searchMemories\<close>.\<close>

definition search_request :: "CogneeClient \<Rightarrow> string \<Rightarrow> string \<Rightarrow> rat \<Rightarrow> string option \<Rightarrow> nat \<Rightarrow> request" where
  "search_request c query searchType topK sessionId timeoutMs =
     \<lparr>req_method = ''POST'', req_url = baseUrl c @ ''/api/v1/search'',
      req_headers = getHeaders c,
      req_body = JsonBody (search_body (JStr query) searchType topK sessionId),
      req_signal = Some (AbortAfter timeoutMs)\<rparr>"

text \<open>An array element that is a string or an object.\<close>

definition string_or_object :: "jsval \<Rightarrow> bool" where
  "string_or_object v = (case v of JStr s \<Rightarrow> True | JObj ps \<Rightarrow> True | _ \<Rightarrow> False)"


text \<open>The two requests of the worked search example on server.js.\<close>

definition second_search_request :: request where
  "second_search_request =
     \<lparr>req_method = ''POST'', req_url = ''http://localhost:8000/api/v1/search'',
      req_headers = [(''Content-Type'', ''application/json'')],
      req_body = JsonBody (JObj [(''query'', JArr [JStr ''a'']),
                                 (''search_type'', JStr ''GRAPH_COMPLETION''),
                                 (''top_k'', JNum 10)]),
      req_signal = None\<rparr>"

definition first_search_request :: request where
  "first_search_request =
     \<lparr>req_method = ''POST'', req_url = ''http://localhost:8000/api/v1/search'',
      req_headers = [(''Content-Type'', ''application/json'')],
      req_body = JsonBody (JObj [(''query'', JStr ''ports''),
                                 (''search_type'', JStr ''CHUNKS''),
                                 (''top_k'', JNum 5)]),
      req_signal = None\<rparr>"

section \<open>The tool handlers\<close>

text \<open>
  The arguments of the \<open>cognee\<close> tool: every one optional. The action is kept as any
  string, so that an action outside the schema's five is an input too.
\<close>

record tool_args =
  arg_action :: "string option"
  arg_query :: "string option"
  arg_content :: "string option"
  arg_tags :: "string option"
  arg_searchType :: "string option"
  arg_topK :: "rat option"

text \<open>\<open>a || d\<close> on an optional string and on an optional number.\<close>

definition or_default :: "string option \<Rightarrow> string \<Rightarrow> string" where
  "or_default a d = (if truthy_str a then the a else d)"

definition number_or :: "rat option \<Rightarrow> rat \<Rightarrow> rat" where
  "number_or a d = (case a of None \<Rightarrow> d | Some r \<Rightarrow> if r = 0 then d else r)"

text \<open>
  \<open>xs.slice(0, k)\<close>: \<open>k\<close> is truncated to an integer, and a negative \<open>k\<close> counts
  from the end.
\<close>

definition to_integer :: "rat \<Rightarrow> int" where
  "to_integer r = (if r < 0 then - \<lfloor>- r\<rfloor> else \<lfloor>r\<rfloor>)"

definition slice_to :: "'a list \<Rightarrow> rat \<Rightarrow> 'a list" where
  "slice_to xs k =
     (if to_integer k < 0 then take (nat (int (length xs) + to_integer k)) xs
      else take (nat (to_integer k)) xs)"

text \<open>\<open>xs.join(sep)\<close> and \<open>s.includes(sub)\<close>.\<close>

fun join_with :: "string \<Rightarrow> string list \<Rightarrow> string" where
  "join_with sep [] = []"
| "join_with sep [x] = x"
| "join_with sep (x # y # ys) = x @ sep @ join_with sep (y # ys)"

fun str_includes :: "string \<Rightarrow> string \<Rightarrow> bool" where
  "str_includes [] sub = (sub = [])"
| "str_includes (c # cs) sub = (starts_with (c # cs) sub \<or> str_includes cs sub)"

text \<open>
  The object a handler hands to \<open>JSON.stringify\<close> is its payload (server.js wraps the
  text in \<open>{content: [{type: 'text', text}]}\<close>); \<open>JSON.stringify\<close> leaves out a key
  whose value is \<open>undefined\<close>.
\<close>

definition failure :: "string \<Rightarrow> jsval" where
  "failure msg = JObj [(''success'', JBool False), (''error'', JStr msg)]"

definition search_types_guide :: jsval where
  "search_types_guide =
     JObj [(''GRAPH_COMPLETION'',
              JStr ''Default - Complex reasoning with graph context (slower, most intelligent)''),
           (''RAG_COMPLETION'', JStr ''Fast fact retrieval without graph structure''),
           (''CHUNKS'', JStr ''Raw text passages - fastest option''),
           (''SUMMARIES'', JStr ''Pre-generated hierarchical summaries''),
           (''GRAPH_COMPLETION_COT'', JStr ''Chain-of-thought for complex multi-step reasoning''),
           (''FEELING_LUCKY'', JStr ''Auto-select best search type'')]"

definition help_payload :: "string \<Rightarrow> string \<Rightarrow> string \<Rightarrow> jsval" where
  "help_payload timeline_description add_description add_example =
     JObj [(''success'', JBool True),
           (''message'', JStr ''Cognee Memory Usage Guide''),
           (''commands'',
              JArr [JObj [(''command'', JStr ''search''),
                          (''description'', JStr ''Search memories with configurable search type''),
                          (''args'', JArr [JStr ''query'', JStr ''searchType (optional)'',
                                           JStr ''topK (optional)'']),
                          (''searchTypes'', search_types_guide)],
                    JObj [(''command'', JStr ''timeline''),
                          (''description'', JStr timeline_description),
                          (''args'', JArr [JStr ''query''])],
                    JObj [(''command'', JStr ''add''),
                          (''description'', JStr add_description),
                          (''args'', JArr [JStr ''content'',
                                           JStr ''tags (optional, comma-separated)'']),
                          (''example'', JStr add_example)],
                    JObj [(''command'', JStr ''list''),
                          (''description'', JStr ''List all datasets''),
                          (''args'', JArr [])]]),
           (''nodeSets'',
              JObj [(''description'',
                       JStr ''NodeSets are tags that organize memories into searchable groups''),
                    (''examples'', JArr [JStr ''preferences'', JStr ''tools'', JStr ''decisions'',
                                         JStr ''projects'', JStr ''sessions'']),
                    (''automatic'', JArr [JStr ''sessions'', JStr ''conversations'',
                                          JStr ''user_memories''])]),
           (''searchTypeGuide'',
              JObj [(''simpleFacts'', JStr ''Use RAG_COMPLETION for quick fact lookups''),
                    (''complexReasoning'',
                       JStr ''Use GRAPH_COMPLETION for questions requiring relationship understanding''),
                    (''rawContent'',
                       JStr ''Use CHUNKS to verify content exists or get exact passages''),
                    (''overviews'', JStr ''Use SUMMARIES for quick document overviews''),
                    (''multiStep'',
                       JStr ''Use GRAPH_COMPLETION_COT for differential diagnosis or complex analysis'')])]"

definition quoted :: "string \<Rightarrow> string" where
  "quoted s = [CHR 0x22] @ s @ [CHR 0x22]"

definition single_quoted :: "string \<Rightarrow> string" where
  "single_quoted s = [CHR 0x27] @ s @ [CHR 0x27]"

definition help_payload_gemini :: jsval where
  "help_payload_gemini =
     help_payload (''Time-aware search (e.g., '' @ quoted ''what happened last week'' @ '')'')
       ''Add memory with optional NodeSet tags for organization''
       (''add content='' @ quoted ''default_user prefers dark mode''
        @ '' tags='' @ quoted ''preferences,ui'')"

definition help_payload_opencode :: jsval where
  "help_payload_opencode =
     help_payload
       (''Time-aware search (e.g., '' @ single_quoted ''what happened last week'' @ '', ''
        @ single_quoted ''before 2024'' @ '')'')
       ''Add new memory with optional NodeSet tags for organization''
       (''add content='' @ single_quoted ''default_user prefers dark mode''
        @ '' tags='' @ single_quoted ''preferences,ui'')"

text \<open>One entry of the dataset list: \<open>d => ({id: d.id, name: d.name})\<close>.\<close>

definition dataset_entry :: "jsval \<Rightarrow> js_error + jsval" where
  "dataset_entry d =
     (if nullish d then Inl (type_error ''Cannot read properties of null (reading id)'')
      else Inr (JObj [(''id'', peek d ''id''), (''name'', peek d ''name'')]))"

definition preview :: "string \<Rightarrow> string" where
  "preview text = take 100 text @ (if length text > 100 then ''...'' else [])"

subsection \<open>server.js: the \<open>cognee\<close> tool registered with the MCP server\<close>

text \<open>The \<open>try\<close> block: the \<open>switch\<close> over the action.\<close>

definition tool_try_gemini :: "env \<Rightarrow> tool_args \<Rightarrow> jsval io" where
  "tool_try_gemini e args =
     (let action = or_default (arg_action args) ''help'' in
      if action = ''help'' then io_return help_payload_gemini
      else if action = ''search'' then
        (if \<not> truthy_str (arg_query args)
         then io_return (failure ''query parameter required for search'')
         else
           io_bind
             (searchMemories_gemini e (JStr (the (arg_query args)))
                (or_default (arg_searchType args) ''GRAPH_COMPLETION'')
                (number_or (arg_topK args) 10) None)
             (\<lambda>results.
                io_return
                  (JObj [(''success'', JBool True),
                         (''query'', JStr (the (arg_query args))),
                         (''searchType'',
                            JStr (or_default (arg_searchType args) ''GRAPH_COMPLETION'')),
                         (''count'', JNum (of_nat (length results))),
                         (''results'',
                            JArr (map (\<lambda>r. JObj [(''content'', content r)])
                                    (slice_to results (number_or (arg_topK args) 10))))])))
      else if action = ''timeline'' then
        (if \<not> truthy_str (arg_query args)
         then io_return (failure ''query parameter required for timeline'')
         else
           io_bind
             (searchMemories_gemini e (JStr (the (arg_query args))) ''TEMPORAL'' 15 None)
             (\<lambda>results.
                io_return
                  (JObj [(''success'', JBool True),
                         (''query'', JStr (the (arg_query args))),
                         (''searchType'', JStr ''TEMPORAL''),
                         (''count'', JNum (of_nat (length results))),
                         (''results'',
                            JArr (map (\<lambda>r. JObj [(''content'', content r)])
                                    (slice_to results 15)))])))
      else if action = ''add'' then
        (if \<not> truthy_str (arg_content args)
         then io_return (failure ''content parameter required for add'')
         else
           io_bind
             (addMemory_gemini e (the (arg_content args)) ''gemini_memories''
                (nodeSets (arg_tags args)))
             (\<lambda>added.
                io_bind (cognify_gemini e ''gemini_memories'' True)
                  (\<lambda>cognified.
                     io_return
                       (JObj [(''success'', JBool True),
                              (''message'',
                                 JStr (''Memory added with tags [''
                                       @ join_with '', '' (nodeSets (arg_tags args)) @ '']'')),
                              (''preview'', JStr (preview (the (arg_content args))))]))))
      else if action = ''list'' then
        io_bind (listDatasets_gemini e)
          (\<lambda>datasets.
             if nullish datasets
             then io_throw (type_error ''Cannot read properties of null (reading length)'')
             else if \<not> is_array datasets
             then io_throw (type_error ''datasets.map is not a function'')
             else
               io_bind (io_lift (map_result dataset_entry (elements datasets)))
                 (\<lambda>entries.
                    io_return
                      (JObj [(''success'', JBool True),
                             (''count'', JNum (of_nat (length (elements datasets)))),
                             (''datasets'', JArr entries)])))
      else io_return (failure (''Unknown action: '' @ action)))"

text \<open>The \<open>catch\<close> block.\<close>

definition tool_catch_gemini :: "js_error \<Rightarrow> jsval io" where
  "tool_catch_gemini error =
     io_return
       (JObj [(''success'', JBool False),
              (''error'', JStr (error_message error)),
              (''hint'',
                 if str_includes (error_message error) ''unavailable''
                 then JStr ''Start Cognee with: uv run python -m cognee.api.client''
                 else JUndefined)])"

definition cognee_tool_gemini :: "env \<Rightarrow> tool_args \<Rightarrow> jsval io" where
  "cognee_tool_gemini e args = io_catch (tool_try_gemini e args) tool_catch_gemini"

subsection \<open>OpenCode plugin: \<open>execute\<close> of the \<open>cognee\<close> tool\<close>

text \<open>
  \<open>showToast?.(message, variant)\<close>: the toast is handed to the TUI, and a failure to
  show it is swallowed. Messages are kept without the icon put before them.
\<close>

definition showToast :: "string \<Rightarrow> string \<Rightarrow> unit io" where
  "showToast msg variant w = Some (Inr (), w\<lparr>toasts := toasts w @ [(msg, variant)]\<rparr>)"

text \<open>
  The \<open>try\<close> block; \<open>sessionID\<close> is \<open>context?.sessionID\<close>. The searches run with the
  client's default time limit.
\<close>

definition tool_try_opencode ::
  "env \<Rightarrow> CogneeClient \<Rightarrow> string option \<Rightarrow> tool_args \<Rightarrow> jsval io" where
  "tool_try_opencode e c sessionID args =
     (let action = or_default (arg_action args) ''help'' in
      if action = ''help'' then io_return help_payload_opencode
      else if action = ''search'' then
        (if \<not> truthy_str (arg_query args)
         then io_return (failure ''query parameter is required for search action'')
         else
           io_bind
             (searchMemories_opencode e c (the (arg_query args))
                (or_default (arg_searchType args) ''GRAPH_COMPLETION'')
                (number_or (arg_topK args) 10) sessionID 3000)
             (\<lambda>results.
                if length results = 0
                then io_return
                  (JObj [(''success'', JBool True),
                         (''query'', JStr (the (arg_query args))),
                         (''searchType'',
                            JStr (or_default (arg_searchType args) ''GRAPH_COMPLETION'')),
                         (''count'', JNum 0),
                         (''message'',
                            JStr (''No memories found for: '' @ quoted (the (arg_query args))))])
                else io_return
                  (JObj [(''success'', JBool True),
                         (''query'', JStr (the (arg_query args))),
                         (''searchType'',
                            JStr (or_default (arg_searchType args) ''GRAPH_COMPLETION'')),
                         (''count'', JNum (of_nat (length results))),
                         (''results'',
                            JArr (map (\<lambda>r. JObj [(''content'', content r)])
                                    (slice_to results (number_or (arg_topK args) 10))))])))
      else if action = ''timeline'' then
        (if \<not> truthy_str (arg_query args)
         then io_return (failure ''query parameter is required for timeline action'')
         else
           io_bind
             (searchMemories_opencode e c (the (arg_query args)) ''TEMPORAL'' 15 sessionID 3000)
             (\<lambda>results.
                if length results = 0
                then io_return
                  (JObj [(''success'', JBool True),
                         (''query'', JStr (the (arg_query args))),
                         (''count'', JNum 0),
                         (''message'',
                            JStr (''No temporal events found for: ''
                                  @ quoted (the (arg_query args))))])
                else io_return
                  (JObj [(''success'', JBool True),
                         (''query'', JStr (the (arg_query args))),
                         (''searchType'', JStr ''TEMPORAL''),
                         (''count'', JNum (of_nat (length results))),
                         (''results'',
                            JArr (map (\<lambda>r. JObj [(''content'', content r),
                                                   (''metadata'',
                                                      case metadata r of
                                                        None \<Rightarrow> JUndefined
                                                      | Some m \<Rightarrow> m)])
                                    (slice_to results 15)))])))
      else if action = ''add'' then
        (if \<not> truthy_str (arg_content args)
         then io_return (failure ''content parameter is required for add action'')
         else
           io_bind
             (addMemory_opencode e c (the (arg_content args)) ''default_user''
                (nodeSets (arg_tags args)))
             (\<lambda>addResult.
                if \<not> success addResult
                then io_return
                  (failure (case message addResult of
                              None \<Rightarrow> ''Failed to add memory''
                            | Some m \<Rightarrow> if m = [] then ''Failed to add memory'' else m))
                else
                  io_bind (cognify_opencode e c ''default_user'' False True)
                    (\<lambda>cognified.
                       io_return
                         (JObj [(''success'', JBool True),
                                (''message'',
                                   JStr (''Memory added with tags [''
                                         @ join_with '', '' (nodeSets (arg_tags args))
                                         @ '']: '' @ quoted (preview (the (arg_content args))))),
                                (''nodeSets'',
                                   JArr (map JStr (nodeSets (arg_tags args))))]))))
      else if action = ''list'' then
        io_bind (listDatasets_opencode e c)
          (\<lambda>datasets.
             if length datasets = 0
             then io_return
               (JObj [(''success'', JBool True), (''count'', JNum 0),
                      (''message'', JStr ''No datasets found in Cognee'')])
             else
               io_bind (io_lift (map_result dataset_entry datasets))
                 (\<lambda>entries.
                    io_return
                      (JObj [(''success'', JBool True),
                             (''count'', JNum (of_nat (length datasets))),
                             (''datasets'', JArr entries)])))
      else io_return
        (failure (''Unknown action: '' @ action @ ''. Use '' @ single_quoted ''search''
                  @ '', '' @ single_quoted ''add'' @ '', '' @ single_quoted ''list''
                  @ '', or '' @ single_quoted ''help'')))"

text \<open>The \<open>catch\<close> block: a toast for the user, then the failure payload.\<close>

definition tool_catch_opencode :: "js_error \<Rightarrow> jsval io" where
  "tool_catch_opencode error =
     io_bind
       (case error of
          CogneeUnavailableError m \<Rightarrow> showToast ''Cognee unavailable'' ''error''
        | CogneeAPIError m st \<Rightarrow>
            showToast (''Cognee error ('' @ show_nat st @ '')'') ''error''
        | BuiltinError n m code \<Rightarrow> showToast ''Memory operation failed'' ''error'')
       (\<lambda>shown. io_return (failure (error_message error)))"

definition cognee_tool_opencode ::
  "env \<Rightarrow> CogneeClient \<Rightarrow> string option \<Rightarrow> tool_args \<Rightarrow> jsval io" where
  "cognee_tool_opencode e c sessionID args =
     io_catch (tool_try_opencode e c sessionID args) tool_catch_opencode"

text \<open>The toast of the plugin's \<open>catch\<close> block, by the class of the error.\<close>

definition error_toast :: "js_error \<Rightarrow> string \<times> string" where
  "error_toast error =
     (case error of
        CogneeUnavailableError m \<Rightarrow> (''Cognee unavailable'', ''error'')
      | CogneeAPIError m st \<Rightarrow> (''Cognee error ('' @ show_nat st @ '')'', ''error'')
      | BuiltinError n m code \<Rightarrow> (''Memory operation failed'', ''error''))"


text \<open>A service whose port refuses connections, and the arguments of a search.\<close>

definition refusing_service :: "request list \<Rightarrow> request \<Rightarrow> fetch_outcome" where
  "refusing_service history req = Unreachable 1 (Some ''ECONNREFUSED'')"

definition search_args :: "string option \<Rightarrow> tool_args" where
  "search_args q =
     \<lparr>arg_action = Some ''search'', arg_query = q, arg_content = None, arg_tags = None,
      arg_searchType = None, arg_topK = None\<rparr>"

section \<open>Dates\<close>

text \<open>
  \<open>new Date(ms).toISOString()\<close> for the years 0 to 9999, where it prints
  \<open>YYYY-MM-DDTHH:mm:ss.sssZ\<close> in UTC: the day number since the epoch is turned into a
  civil date of the proleptic Gregorian calendar.
\<close>

definition civil_from_days :: "int \<Rightarrow> int \<times> int \<times> int" where
  "civil_from_days days =
     (let z = days + 719468;
          era = z div 146097;
          doe = z mod 146097;
          yoe = (doe - doe div 1460 + doe div 36524 - doe div 146096) div 365;
          doy = doe - (365 * yoe + yoe div 4 - yoe div 100);
          mp = (5 * doy + 2) div 153;
          d = doy - (153 * mp + 2) div 5 + 1;
          m = (if mp < 10 then mp + 3 else mp - 9);
          y = yoe + era * 400 + (if m \<le> 2 then 1 else 0)
      in (y, m, d))"

definition show_int :: "int \<Rightarrow> string" where
  "show_int i = (if i < 0 then CHR ''-'' # show_nat (nat (- i)) else show_nat (nat i))"

definition pad_left :: "nat \<Rightarrow> string \<Rightarrow> string" where
  "pad_left n s = replicate (n - length s) CHR ''0'' @ s"

definition toISOString :: "int \<Rightarrow> string" where
  "toISOString ms =
     (let days = ms div 86400000;
          rest = ms mod 86400000;
          (y, m, d) = civil_from_days days
      in pad_left 4 (show_int y) @ ''-'' @ pad_left 2 (show_int m) @ ''-''
         @ pad_left 2 (show_int d) @ ''T''
         @ pad_left 2 (show_int (rest div 3600000)) @ '':''
         @ pad_left 2 (show_int (rest div 60000 mod 60)) @ '':''
         @ pad_left 2 (show_int (rest div 1000 mod 60)) @ ''.''
         @ pad_left 3 (show_int (rest mod 1000)) @ ''Z'')"

text \<open>\<open>iso.split('T')[0]\<close>, and \<open>date.replace(/-/g, '_')\<close>.\<close>

definition date_part :: "string \<Rightarrow> string" where
  "date_part stamp = takeWhile (\<lambda>ch. ch \<noteq> CHR ''T'') stamp"

definition dashes_to_underscores :: "string \<Rightarrow> string" where
  "dashes_to_underscores s = map (\<lambda>ch. if ch = CHR ''-'' then CHR ''_'' else ch) s"

text \<open>\<open>Date.now()\<close> and \<open>new Date()\<close>: one more reading of the clock.\<close>

definition Date_now :: "env \<Rightarrow> int io" where
  "Date_now e w = Some (Inr (clock e (ticks w)), w\<lparr>ticks := Suc (ticks w)\<rparr>)"

text \<open>\<open>Math.round(elapsed / 1000 / 60)\<close> on a whole number of milliseconds.\<close>

definition round_minutes :: "int \<Rightarrow> int" where
  "round_minutes elapsed = (2 * elapsed + 60000) div 120000"

section \<open>Session tracking in the OpenCode plugin\<close>

record transcript_message =
  msg_role :: string
  msg_content :: string
  msg_timestamp :: int

record SessionState =
  messages :: "transcript_message list"
  startTime :: int

text \<open>
  The plugin's two module-level collections: the \<open>Map\<close> \<open>conversations\<close>, in insertion
  order, and the \<open>Set\<close> \<open>injectedSessions\<close>.
\<close>

record plugin_state =
  conversations :: "(string \<times> SessionState) list"
  injectedSessions :: "string list"

text \<open>\<open>Map.prototype.set\<close> and \<open>delete\<close>; \<open>get\<close> is \<open>map_of\<close>.\<close>

fun map_set :: "string \<Rightarrow> 'v \<Rightarrow> (string \<times> 'v) list \<Rightarrow> (string \<times> 'v) list" where
  "map_set k v [] = [(k, v)]"
| "map_set k v ((k', v') # kvs) =
     (if k' = k then (k, v) # kvs else (k', v') # map_set k v kvs)"

definition map_delete :: "string \<Rightarrow> (string \<times> 'v) list \<Rightarrow> (string \<times> 'v) list" where
  "map_delete k kvs = filter (\<lambda>kv. fst kv \<noteq> k) kvs"

text \<open>
  A part of the outgoing message, and the settings the plugin reads from its
  configuration.
\<close>

record part =
  part_id :: string
  part_type :: string
  part_text :: string
  synthetic :: bool

record plugin_config =
  keywordPatterns :: "string list"
  injection_searchType :: string
  injection_topK :: rat
  maxMemories :: rat

definition newline :: string where
  "newline = [CHR 0x0A]"

definition MEMORY_NUDGE_MESSAGE :: string where
  "MEMORY_NUDGE_MESSAGE =
     ''[MEMORY TRIGGER DETECTED]'' @ newline
     @ ''The user wants you to remember something. You MUST use the `cognee` tool with `action: ''
     @ quoted ''add'' @ ''` to save this information.'' @ newline @ newline
     @ ''Extract the key information the user wants remembered and save it as a concise, searchable memory.''
     @ newline
     @ ''Use appropriate tags to categorize: preferences, decisions, learnings, projects, tools.''
     @ newline @ newline
     @ ''DO NOT skip this step. The user explicitly asked you to remember.''"

text \<open>\<open>role.toUpperCase()\<close>, for roles written in ASCII letters.\<close>

definition toUpperCase :: "string \<Rightarrow> string" where
  "toUpperCase s =
     map (\<lambda>ch. case map_of (zip ''abcdefghijklmnopqrstuvwxyz'' ''ABCDEFGHIJKLMNOPQRSTUVWXYZ'') ch of
                  Some u \<Rightarrow> u
                | None \<Rightarrow> ch) s"

definition formatConversation :: "transcript_message list \<Rightarrow> string" where
  "formatConversation msgs =
     join_with (newline @ newline)
       (map (\<lambda>msg. ''['' @ toISOString (msg_timestamp msg) @ ''] ''
                    @ toUpperCase (msg_role msg) @ '': '' @ msg_content msg) msgs)"

text \<open>
  The element of a joined array as text: a string is itself, \<open>null\<close> and \<open>undefined\<close>
  are empty, anything else is converted by the runtime.
\<close>

definition join_text :: "env \<Rightarrow> jsval \<Rightarrow> string" where
  "join_text e v =
     (case v of JStr s \<Rightarrow> s | JNull \<Rightarrow> [] | JUndefined \<Rightarrow> [] | _ \<Rightarrow> String_of e v)"

text \<open>
  \<open>chat.message\<close>, in the order of the source: the conversation is tracked (a state is
  created for a session identifier that has none), the nudge is pushed when a keyword is
  detected, and memories are searched and put first on the first message of a session.
\<close>

definition track_message :: "env \<Rightarrow> string \<Rightarrow> string \<Rightarrow> plugin_state \<Rightarrow> plugin_state io" where
  "track_message e sessionID userMessage st =
     io_bind
       (case map_of (conversations st) sessionID of
          Some state \<Rightarrow> io_return state
        | None \<Rightarrow> io_bind (Date_now e) (\<lambda>now. io_return \<lparr>messages = [], startTime = now\<rparr>))
       (\<lambda>state.
          io_bind (Date_now e)
            (\<lambda>now.
               io_return
                 (st\<lparr>conversations :=
                       map_set sessionID
                         (state\<lparr>messages :=
                                  messages state
                                  @ [\<lparr>msg_role = ''user'', msg_content = userMessage,
                                      msg_timestamp = now\<rparr>]\<rparr>)
                         (conversations st)\<rparr>)))"

definition nudge :: "env \<Rightarrow> plugin_config \<Rightarrow> string \<Rightarrow> part list \<Rightarrow> part list io" where
  "nudge e cfg userMessage parts =
     (if detectMemoryKeyword (keywordPatterns cfg) userMessage
      then io_bind (showToast ''Memory trigger detected'' ''info'')
             (\<lambda>shown.
                io_bind (Date_now e)
                  (\<lambda>now.
                     io_return
                       (parts @ [\<lparr>part_id = ''cognee-nudge-'' @ show_int now,
                                  part_type = ''text'', part_text = MEMORY_NUDGE_MESSAGE,
                                  synthetic = True\<rparr>])))
      else io_return parts)"

definition inject_memories ::
  "env \<Rightarrow> plugin_config \<Rightarrow> CogneeClient \<Rightarrow> string \<Rightarrow> string \<Rightarrow> part list \<Rightarrow> part list io" where
  "inject_memories e cfg c sessionID userMessage parts =
     io_catch
       (io_bind
          (searchMemories_opencode e c userMessage (injection_searchType cfg)
             (injection_topK cfg) (Some sessionID) 3000)
          (\<lambda>memories.
             if length memories > 0
             then io_bind (Date_now e)
                    (\<lambda>now.
                       io_bind
                         (showToast (''Loaded '' @ show_nat (length memories) @ '' memories'')
                            ''success'')
                         (\<lambda>shown.
                            io_return
                              (\<lparr>part_id = ''cognee-context-'' @ show_int now,
                                part_type = ''text'',
                                part_text =
                                  ''<remembered_context>'' @ newline
                                  @ join_with (newline @ newline @ ''---'' @ newline @ newline)
                                      (map (\<lambda>m. join_text e (content m))
                                         (slice_to memories (maxMemories cfg)))
                                  @ newline @ ''</remembered_context>'',
                                synthetic = True\<rparr> # parts)))
             else io_return parts))
       (\<lambda>error.
          io_bind
            (case error of
               CogneeUnavailableError m \<Rightarrow>
                 showToast ''Cognee unavailable - memories not loaded'' ''error''
             | _ \<Rightarrow> showToast ''Failed to fetch memories'' ''error'')
            (\<lambda>shown. io_return parts))"

definition chat_message ::
  "env \<Rightarrow> plugin_config \<Rightarrow> CogneeClient \<Rightarrow> string \<Rightarrow> part list \<Rightarrow> plugin_state
     \<Rightarrow> (plugin_state \<times> part list) io" where
  "chat_message e cfg c sessionID parts st =
     io_catch
       (if length (filter (\<lambda>p. part_type p = ''text'') parts) = 0 then io_return (st, parts)
        else if trim (join_with newline
                        (map part_text (filter (\<lambda>p. part_type p = ''text'') parts))) = []
        then io_return (st, parts)
        else
          io_bind
            (track_message e sessionID
               (join_with newline (map part_text (filter (\<lambda>p. part_type p = ''text'') parts)))
               st)
            (\<lambda>st1.
               io_bind
                 (nudge e cfg
                    (join_with newline
                       (map part_text (filter (\<lambda>p. part_type p = ''text'') parts)))
                    parts)
                 (\<lambda>parts1.
                    if sessionID \<in> set (injectedSessions st1) then io_return (st1, parts1)
                    else
                      io_bind
                        (inject_memories e cfg c sessionID
                           (join_with newline
                              (map part_text (filter (\<lambda>p. part_type p = ''text'') parts)))
                           parts1)
                        (\<lambda>parts2.
                           io_return
                             (st1\<lparr>injectedSessions := injectedSessions st1 @ [sessionID]\<rparr>,
                              parts2)))))
       (\<lambda>error.
          io_bind (showToast ''Memory hook error'' ''error'') (\<lambda>shown. io_return (st, parts)))"

text \<open>The document and the node sets of one session, in the \<open>event\<close> handler.\<close>

definition sessionContext :: "string \<Rightarrow> SessionState \<Rightarrow> int \<Rightarrow> string" where
  "sessionContext sessionId state now =
     ''Session Record ('' @ date_part (toISOString (startTime state)) @ ''):'' @ newline
     @ ''Date: '' @ date_part (toISOString (startTime state)) @ newline
     @ ''Time: '' @ toISOString (startTime state) @ newline
     @ ''Session ID: '' @ sessionId @ newline
     @ ''Duration: '' @ show_int (round_minutes (now - startTime state)) @ '' minutes'' @ newline
     @ ''Message Count: '' @ show_nat (length (messages state)) @ newline
     @ newline
     @ ''Events and Conversation:'' @ newline
     @ formatConversation (messages state)"

definition sessionNodeSets :: "int \<Rightarrow> string list" where
  "sessionNodeSets t =
     [''sessions'', ''conversations'',
      ''session_'' @ dashes_to_underscores (date_part (toISOString t))]"

text \<open>The \<open>try\<close> block for one session.\<close>

definition save_session :: "env \<Rightarrow> CogneeClient \<Rightarrow> string \<Rightarrow> SessionState \<Rightarrow> unit io" where
  "save_session e c sessionId state =
     io_bind (Date_now e)
       (\<lambda>now.
          io_bind
            (addMemory_opencode e c (sessionContext sessionId state now) ''default_user''
               (sessionNodeSets (startTime state)))
            (\<lambda>addResult.
               if success addResult
               then io_bind (cognify_opencode e c ''default_user'' False True)
                      (\<lambda>cognified. showToast ''Session saved to memory'' ''success'')
               else io_return ()))"

definition save_failed :: "js_error \<Rightarrow> unit io" where
  "save_failed error =
     (case error of
        CogneeUnavailableError m \<Rightarrow> showToast ''Cognee unavailable - session not saved'' ''error''
      | _ \<Rightarrow> showToast ''Failed to save session'' ''error'')"

text \<open>
  The loop over \<open>conversations.entries()\<close>: every session with messages is saved, and
  deleted from both collections in the \<open>finally\<close> block, whatever the outcome.
\<close>

fun flush_sessions ::
  "env \<Rightarrow> CogneeClient \<Rightarrow> (string \<times> SessionState) list \<Rightarrow> plugin_state \<Rightarrow> plugin_state io" where
  "flush_sessions e c [] st w = Some (Inr st, w)"
| "flush_sessions e c ((sessionId, state) # entries) st w =
     (if length (messages state) > 0
      then (case io_catch (save_session e c sessionId state) save_failed w of
              None \<Rightarrow> None
            | Some (Inl err, w') \<Rightarrow> Some (Inl err, w')
            | Some (Inr done, w') \<Rightarrow>
                flush_sessions e c entries
                  (st\<lparr>conversations := map_delete sessionId (conversations st),
                      injectedSessions := removeAll sessionId (injectedSessions st)\<rparr>) w')
      else flush_sessions e c entries st w)"

definition event_handler :: "env \<Rightarrow> CogneeClient \<Rightarrow> string \<Rightarrow> plugin_state \<Rightarrow> plugin_state io" where
  "event_handler e c eventType st =
     (if eventType = ''session.idle'' \<or> eventType = ''session.end''
      then flush_sessions e c (conversations st) st
      else io_return st)"

section \<open>The SessionEnd hook of the Gemini extension (session-end.js)\<close>

text \<open>
  What the hook finds at \<open>transcript_path\<close>: no path or no file, a file that cannot be
  read or parsed, or the parsed transcript.
\<close>

datatype transcript_file =
    NoTranscript
  | TranscriptUnreadable
  | Transcript jsval

record hook_input =
  hook_reason :: string
  hook_session_id :: string
  hook_transcript :: transcript_file

text \<open>A value inside a template literal.\<close>

definition template_text :: "env \<Rightarrow> jsval \<Rightarrow> string" where
  "template_text e v = (case v of JStr s \<Rightarrow> s | _ \<Rightarrow> String_of e v)"

text \<open>One message of the transcript, in the \<open>map\<close> over the last ten.\<close>

definition summary_part :: "env \<Rightarrow> jsval \<Rightarrow> js_error + string" where
  "summary_part e msg =
     (if nullish msg then Inl (type_error ''Cannot read properties of null (reading role)'')
      else
        (case peek msg ''content'' of
           JStr s \<Rightarrow>
             Inr (''['' @ template_text e (js_or (peek msg ''role'') (JStr ''unknown''))
                  @ '']: '' @ take 500 s)
         | JUndefined \<Rightarrow>
             Inl (type_error ''Cannot read properties of undefined (reading substring)'')
         | other \<Rightarrow>
             Inr (''['' @ template_text e (js_or (peek msg ''role'') (JStr ''unknown''))
                  @ '']: '' @ take 500 (JSON_stringify e other))))"

text \<open>
  The inner \<open>try\<close> block: the summary of the transcript, empty when there is none or
  when reading it throws.
\<close>

definition transcript_summary :: "env \<Rightarrow> transcript_file \<Rightarrow> string" where
  "transcript_summary e f =
     (case f of
        NoTranscript \<Rightarrow> []
      | TranscriptUnreadable \<Rightarrow> []
      | Transcript transcript \<Rightarrow>
          if nullish transcript then []
          else
            (case js_or (peek transcript ''messages'')
                    (js_or (peek transcript ''turns'') (JArr [])) of
               JArr msgs \<Rightarrow>
                 if length msgs > 0
                 then (case map_result (summary_part e) (drop (length msgs - 10) msgs) of
                         Inl err \<Rightarrow> []
                       | Inr summaryParts \<Rightarrow> join_with (newline @ newline) summaryParts)
                 else []
             | other \<Rightarrow> []))"

definition sessionRecord :: "env \<Rightarrow> hook_input \<Rightarrow> int \<Rightarrow> int \<Rightarrow> string" where
  "sessionRecord e input date_now time_now =
     ''Session Record ('' @ date_part (toISOString date_now) @ ''):'' @ newline
     @ ''Date: '' @ date_part (toISOString date_now) @ newline
     @ ''Time: '' @ toISOString time_now @ newline
     @ ''Session ID: '' @ hook_session_id input @ newline
     @ ''End Reason: '' @ hook_reason input @ newline
     @ newline
     @ ''Conversation Summary:'' @ newline
     @ (if transcript_summary e (hook_transcript input) = []
        then ''Session '' @ hook_session_id input @ '' ended ('' @ hook_reason input @ '')''
        else transcript_summary e (hook_transcript input))"

text \<open>
  \<open>main\<close> of session-end.js; \<open>datasetName\<close> is \<open>config.datasetName || 'default_user'\<close>,
  and the result is the object printed on standard output (status messages without
  their icon).
\<close>

definition session_end :: "env \<Rightarrow> string \<Rightarrow> hook_input \<Rightarrow> jsval io" where
  "session_end e datasetName input =
     io_catch
       (io_bind
          (fetch e \<lparr>req_method = ''GET'', req_url = COGNEE_URL e @ ''/health'',
                    req_headers = [], req_body = NoBody,
                    req_signal = Some (TimeoutSignal 2000)\<rparr>)
          (\<lambda>healthResponse.
             if \<not> ok healthResponse
             then io_return (JObj [(''systemMessage'', JStr ''Session not saved (Cognee offline)'')])
             else
               io_bind (Date_now e)
                 (\<lambda>date_now.
                    io_bind (Date_now e)
                      (\<lambda>time_now.
                         io_bind
                           (fetch e
                              \<lparr>req_method = ''POST'', req_url = COGNEE_URL e @ ''/api/v1/add'',
                               req_headers = bearer (COGNEE_API_TOKEN e),
                               req_body =
                                 FormBody (sessionRecord e input date_now time_now)
                                   ''session.txt'' datasetName (sessionNodeSets date_now),
                               req_signal = Some (TimeoutSignal 5000)\<rparr>)
                           (\<lambda>addResponse.
                              if ok addResponse
                              then
                                io_bind
                                  (fetch e
                                     \<lparr>req_method = ''POST'',
                                      req_url = COGNEE_URL e @ ''/api/v1/cognify'',
                                      req_headers = (''Content-Type'', ''application/json'')
                                                      # bearer (COGNEE_API_TOKEN e),
                                      req_body =
                                        JsonBody (JObj [(''datasets'', JArr [JStr datasetName]),
                                                        (''temporal_cognify'', JBool True)]),
                                      req_signal = Some (TimeoutSignal 5000)\<rparr>)
                                  (\<lambda>cognifyResponse.
                                     io_return
                                       (JObj [(''systemMessage'',
                                                 JStr ''Session saved to memory'')]))
                              else io_return (JObj []))))))
       (\<lambda>error. io_return (JObj []))"

section \<open>Requests, states and runs named in the session properties\<close>

text \<open>The requests of the plugin client's \<open>addMemory\<close> and \<open>cognify\<close>.\<close>

definition add_request :: "CogneeClient \<Rightarrow> string \<Rightarrow> string \<Rightarrow> string list \<Rightarrow> request" where
  "add_request c text datasetName tags =
     \<lparr>req_method = ''POST'', req_url = baseUrl c @ ''/api/v1/add'',
      req_headers = bearer (apiToken c),
      req_body = FormBody text ''memory.txt'' datasetName tags, req_signal = None\<rparr>"

definition cognify_request :: "CogneeClient \<Rightarrow> string \<Rightarrow> bool \<Rightarrow> bool \<Rightarrow> request" where
  "cognify_request c datasetName useCustomOntology temporalCognify =
     \<lparr>req_method = ''POST'', req_url = baseUrl c @ ''/api/v1/cognify'',
      req_headers = getHeaders c,
      req_body = JsonBody (cognify_body datasetName useCustomOntology temporalCognify),
      req_signal = None\<rparr>"

text \<open>The text parts of a message, joined by newlines: \<open>userMessage\<close> in \<open>chat.message\<close>.\<close>

definition user_text :: "part list \<Rightarrow> string" where
  "user_text parts = join_with newline (map part_text (filter (\<lambda>p. part_type p = ''text'') parts))"

text \<open>
  The \<open>Map\<close> holds each session identifier once, and every tracked session has at least
  one message (a state is created only to receive one).
\<close>

definition well_formed :: "plugin_state \<Rightarrow> bool" where
  "well_formed st =
     (distinct (map fst (conversations st))
      \<and> list_all (\<lambda>kv. messages (snd kv) \<noteq> []) (conversations st))"

text \<open>The service settles every request: it answers or the connection fails.\<close>

definition answering :: "env \<Rightarrow> bool" where
  "answering e = (\<forall>history req. service e history req \<noteq> Silent)"

text \<open>The identifiers of the entries that the flush loop saves and deletes.\<close>

definition flushed_ids :: "(string \<times> SessionState) list \<Rightarrow> string set" where
  "flushed_ids entries = set (map fst (filter (\<lambda>kv. messages (snd kv) \<noteq> []) entries))"

text \<open>The state of a session after one more message, at the clock readings of the world.\<close>

definition tracked :: "env \<Rightarrow> string \<Rightarrow> string \<Rightarrow> plugin_state \<Rightarrow> world \<Rightarrow> SessionState" where
  "tracked e sessionID text st w =
     (case map_of (conversations st) sessionID of
        None \<Rightarrow>
          \<lparr>messages = [\<lparr>msg_role = ''user'', msg_content = text,
                        msg_timestamp = clock e (Suc (ticks w))\<rparr>],
           startTime = clock e (ticks w)\<rparr>
      | Some state \<Rightarrow>
          state\<lparr>messages := messages state
                   @ [\<lparr>msg_role = ''user'', msg_content = text,
                       msg_timestamp = clock e (ticks w)\<rparr>]\<rparr>)"

text \<open>
  The host delivers chat messages and events one at a time; a run threads the plugin's
  state and the world through them.
\<close>

datatype host_event = ChatMessage string "part list" | HostEvent string

definition plugin_step ::
  "env \<Rightarrow> plugin_config \<Rightarrow> CogneeClient \<Rightarrow> host_event \<Rightarrow> plugin_state \<Rightarrow> plugin_state io" where
  "plugin_step e cfg c ev st =
     (case ev of
        ChatMessage sessionID parts \<Rightarrow>
          io_bind (chat_message e cfg c sessionID parts st) (\<lambda>res. io_return (fst res))
      | HostEvent eventType \<Rightarrow> event_handler e c eventType st)"

fun run_plugin ::
  "env \<Rightarrow> plugin_config \<Rightarrow> CogneeClient \<Rightarrow> host_event list \<Rightarrow> plugin_state \<Rightarrow> plugin_state io" where
  "run_plugin e cfg c [] st w = Some (Inr st, w)"
| "run_plugin e cfg c (ev # evs) st w =
     (case plugin_step e cfg c ev st w of
        None \<Rightarrow> None
      | Some (Inl err, w') \<Rightarrow> Some (Inl err, w')
      | Some (Inr st', w') \<Rightarrow> run_plugin e cfg c evs st' w')"

text \<open>The settings of the default configuration, an empty plugin, and a text part.\<close>

definition default_plugin_config :: plugin_config where
  "default_plugin_config =
     \<lparr>keywordPatterns = default_keywordPatterns, injection_searchType = ''CHUNKS'',
      injection_topK = 3, maxMemories = 5\<rparr>"

definition empty_state :: plugin_state where
  "empty_state = \<lparr>conversations = [], injectedSessions = []\<rparr>"

definition text_part :: "string \<Rightarrow> part" where
  "text_part s = \<lparr>part_id = ''prt_1'', part_type = ''text'', part_text = s, synthetic = False\<rparr>"

text \<open>
  A service that answers every request after 5 ms with status 200 and an empty JSON
  array, and a clock that advances one second per reading.
\<close>

definition accepting_service :: "request list \<Rightarrow> request \<Rightarrow> fetch_outcome" where
  "accepting_service history req =
     Responds 5 \<lparr>status = 200, body_text = ''[]'', body_json = Some (JArr [])\<rparr>"

definition ticking_clock :: "int \<Rightarrow> nat \<Rightarrow> int" where
  "ticking_clock t0 n = t0 + 1000 * int n"

text \<open>The tracked sessions with the contents of their messages.\<close>

definition transcripts :: "plugin_state \<Rightarrow> (string \<times> string list) list" where
  "transcripts st = map (\<lambda>kv. (fst kv, map msg_content (messages (snd kv)))) (conversations st)"

section \<open>Properties of the node-set parser\<close>

lemma split_on_nonempty: "split_on c s \<noteq> []"
  by (induction s) auto

lemma split_on_no_sep: "w \<in> set (split_on c s) \<Longrightarrow> c \<notin> set w"
proof (induction s arbitrary: w)
  case Nil
  then show ?case by simp
next
  case (Cons x xs)
  have ne: "split_on c xs \<noteq> []" by (rule split_on_nonempty)
  show ?case
  proof (cases "x = c")
    case True
    with Cons show ?thesis by auto
  next
    case False
    from Cons.prems False
    have "w = x # hd (split_on c xs) \<or> w \<in> set (tl (split_on c xs))" by simp
    then show ?thesis
    proof
      assume "w = x # hd (split_on c xs)"
      moreover have "c \<notin> set (hd (split_on c xs))"
        using Cons.IH ne by simp
      ultimately show ?thesis using False by auto
    next
      assume "w \<in> set (tl (split_on c xs))"
      then have "w \<in> set (split_on c xs)" using ne by (meson list.set_sel(2))
      then show ?thesis by (rule Cons.IH)
    qed
  qed
qed

lemma trim_subset: "set (trim s) \<subseteq> set s"
proof -
  have "set (trim s) = set (dropWhile is_js_space (rev (dropWhile is_js_space s)))"
    by (simp add: trim_def)
  also have "\<dots> \<subseteq> set (rev (dropWhile is_js_space s))"
    by (meson set_dropWhileD subsetI)
  also have "\<dots> \<subseteq> set s"
    by (auto dest: set_dropWhileD)
  finally show ?thesis .
qed

lemma trim_no_leading_space: "trim s \<noteq> [] \<Longrightarrow> \<not> is_js_space (hd (trim s))"
proof -
  assume ne: "trim s \<noteq> []"
  let ?d = "dropWhile is_js_space s"
  let ?e = "dropWhile is_js_space (rev ?d)"
  have e_ne: "?e \<noteq> []" using ne by (simp add: trim_def)
  then have last_e: "\<not> is_js_space (hd ?e)" by (rule hd_dropWhile)
  have d_ne: "?d \<noteq> []" using e_ne by (metis dropWhile.simps(1) rev.simps(1))
  then have hd_d: "\<not> is_js_space (hd ?d)" by (rule hd_dropWhile)
  have "\<exists>ys. rev ?d = ys @ ?e"
    by (metis takeWhile_dropWhile_id)
  then obtain ys where "rev ?d = ys @ ?e" ..
  then have "?d = rev ?e @ rev ys" by (metis rev_append rev_rev_ident)
  then have "hd ?d = hd (rev ?e)" using e_ne by (metis hd_append2 rev_is_Nil_conv)
  then show ?thesis using hd_d by (simp add: trim_def)
qed

lemma trim_no_trailing_space: "trim s \<noteq> [] \<Longrightarrow> \<not> is_js_space (last (trim s))"
proof -
  assume ne: "trim s \<noteq> []"
  let ?e = "dropWhile is_js_space (rev (dropWhile is_js_space s))"
  have e_ne: "?e \<noteq> []" using ne by (simp add: trim_def)
  then have "\<not> is_js_space (hd ?e)" by (rule hd_dropWhile)
  moreover have "last (rev ?e) = hd ?e" using e_ne by (simp add: last_rev)
  ultimately show ?thesis by (simp add: trim_def)
qed

lemma nodeSets_entries:
  "truthy_str tags \<Longrightarrow> t \<in> set (nodeSets tags) \<Longrightarrow>
     t \<noteq> [] \<and> CHR '','' \<notin> set t \<and> \<not> is_js_space (hd t) \<and> \<not> is_js_space (last t)"
proof -
  assume tr: "truthy_str tags" and mem: "t \<in> set (nodeSets tags)"
  from tr mem obtain w where w: "w \<in> set (split_on CHR '','' (the tags))"
    and t: "t = trim w" and ne: "t \<noteq> []"
    by (auto simp: nodeSets_def)
  have "CHR '','' \<notin> set w" using w by (rule split_on_no_sep)
  then have "CHR '','' \<notin> set t" using trim_subset t by blast
  moreover have "\<not> is_js_space (hd t)" using ne t trim_no_leading_space by blast
  moreover have "\<not> is_js_space (last t)" using ne t trim_no_trailing_space by blast
  ultimately show ?thesis using ne by simp
qed

text \<open>
  C9. For the add action the tags argument \<open>a, b ,,c\<close> is parsed into the node-set list
  exactly \<open>[a, b, c]\<close> (split on commas, trimmed, empty entries dropped), and with no tags
  argument the node sets are exactly \<open>[user_memories]\<close>.
\<close>

theorem nodeSets_example:
  "nodeSets (Some ''a, b ,,c'') = [''a'', ''b'', ''c'']
   \<and> nodeSets None = [''user_memories'']"
  by (simp add: nodeSets_def truthy_str_def trim_def is_js_space_def)


section \<open>Properties of configuration loading\<close>

lemma map_of_set_prop: "map_of (set_prop k v ps) = (map_of ps)(k \<mapsto> v)"
  by (induction ps) auto

lemma map_of_fold_set_prop:
  "map_of (fold (\<lambda>(k, v). set_prop k v) qs ps) = map_of ps ++ map_of (rev qs)"
proof (induction qs arbitrary: ps)
  case Nil
  then show ?case by simp
next
  case (Cons q qs)
  obtain k v where q: "q = (k, v)" by (cases q)
  have "map_of (fold (\<lambda>(k, v). set_prop k v) (q # qs) ps)
        = (map_of ps)(k \<mapsto> v) ++ map_of (rev qs)"
    unfolding q using Cons.IH [of "set_prop k v ps"] by (simp only: fold_Cons o_apply case_prod_conv map_of_set_prop)
  also have "\<dots> = map_of ps ++ ([k \<mapsto> v] ++ map_of (rev qs))"
    by (metis map_add_assoc map_add_upd map_add_empty)
  also have "\<dots> = map_of ps ++ map_of (rev (q # qs))"
    using q by simp
  finally show ?case .
qed

lemma get_prop_spread:
  "get_prop (spread base extra) k =
     (case map_of (rev (own_props extra)) k of
        Some v \<Rightarrow> v
      | None \<Rightarrow> get_prop base k)"
  by (simp add: get_prop_def spread_def map_of_fold_set_prop map_add_def split: option.splits)

text \<open>
  C10. \<open>loadConfig\<close> is total: whatever the state of the configuration file (absent,
  unreadable, unparsable, or valid JSON) it returns and never throws. It returns exactly
  the defaults when the file is absent, unreadable or unparsable; for a parsed file every
  top-level key reads as the file's value when the file has that key and as the default
  otherwise (a shallow override). So a file whose \<open>injection\<close> object holds only
  \<open>topK\<close> replaces the whole default \<open>injection\<close> object: its \<open>searchType\<close> and
  \<open>timeout\<close> are gone. This holds for config.js and for config.ts.
\<close>

theorem loadConfig_total_shallow:
  "(\<exists>c. loadConfig_gemini f = Inr c) \<and> (\<exists>c. loadConfig_opencode f = Inr c)
   \<and> (f \<in> {FileAbsent, FileUnreadable, FileUnparsable} \<longrightarrow>
        loadConfig_gemini f = Inr DEFAULT_CONFIG_gemini
        \<and> loadConfig_opencode f = Inr DEFAULT_CONFIG_opencode)
   \<and> (\<forall>u. f = FileJson u \<longrightarrow>
        (\<exists>c d. loadConfig_gemini f = Inr c \<and> loadConfig_opencode f = Inr d
           \<and> (\<forall>k. get_prop c k =
                 (case map_of (rev (own_props u)) k of
                    Some v \<Rightarrow> v | None \<Rightarrow> get_prop DEFAULT_CONFIG_gemini k))
           \<and> (\<forall>k. get_prop d k =
                 (case map_of (rev (own_props u)) k of
                    Some v \<Rightarrow> v | None \<Rightarrow> get_prop DEFAULT_CONFIG_opencode k))))
   \<and> (\<forall>n. f = FileJson (JObj [(''injection'', JObj [(''topK'', n)])]) \<longrightarrow>
        (\<exists>c d. loadConfig_gemini f = Inr c \<and> loadConfig_opencode f = Inr d
           \<and> get_prop c ''injection'' = JObj [(''topK'', n)]
           \<and> get_prop d ''injection'' = JObj [(''topK'', n)]
           \<and> get_prop c ''cogneeUrl'' = JStr ''http://localhost:8000''
           \<and> get_prop d ''maxMemories'' = JNum 5))"
proof -
  have total: "(\<exists>c. loadConfig_gemini f = Inr c) \<and> (\<exists>c. loadConfig_opencode f = Inr c)"
    by (cases f) (simp_all add: loadConfig_gemini_def loadConfig_opencode_def read_config_def)
  have dflt: "spread DEFAULT_CONFIG_gemini (JObj []) = DEFAULT_CONFIG_gemini"
    by (simp add: spread_def)
  have absent: "f \<in> {FileAbsent, FileUnreadable, FileUnparsable} \<longrightarrow>
        loadConfig_gemini f = Inr DEFAULT_CONFIG_gemini
        \<and> loadConfig_opencode f = Inr DEFAULT_CONFIG_opencode"
    by (auto simp: loadConfig_gemini_def loadConfig_opencode_def read_config_def dflt)
  have parsed: "\<forall>u. f = FileJson u \<longrightarrow>
        (\<exists>c d. loadConfig_gemini f = Inr c \<and> loadConfig_opencode f = Inr d
           \<and> (\<forall>k. get_prop c k =
                 (case map_of (rev (own_props u)) k of
                    Some v \<Rightarrow> v | None \<Rightarrow> get_prop DEFAULT_CONFIG_gemini k))
           \<and> (\<forall>k. get_prop d k =
                 (case map_of (rev (own_props u)) k of
                    Some v \<Rightarrow> v | None \<Rightarrow> get_prop DEFAULT_CONFIG_opencode k)))"
    by (simp add: loadConfig_gemini_def loadConfig_opencode_def read_config_def
        get_prop_spread)
  have nested: "\<forall>n. f = FileJson (JObj [(''injection'', JObj [(''topK'', n)])]) \<longrightarrow>
        (\<exists>c d. loadConfig_gemini f = Inr c \<and> loadConfig_opencode f = Inr d
           \<and> get_prop c ''injection'' = JObj [(''topK'', n)]
           \<and> get_prop d ''injection'' = JObj [(''topK'', n)]
           \<and> get_prop c ''cogneeUrl'' = JStr ''http://localhost:8000''
           \<and> get_prop d ''maxMemories'' = JNum 5)"
    by (simp add: loadConfig_gemini_def loadConfig_opencode_def read_config_def
        get_prop_spread)
       (simp add: get_prop_def DEFAULT_CONFIG_gemini_def DEFAULT_CONFIG_opencode_def)
  from total absent parsed nested show ?thesis by blast
qed

theorem loadConfig_total_shallow_witness:
  "loadConfig_gemini (FileJson (JObj [(''injection'', JObj [(''topK'', JNum 7)])]))
     = Inr [(''cogneeUrl'', JStr ''http://localhost:8000''),
            (''datasetName'', JStr ''default_user''),
            (''similarityThreshold'', JNum (7 / 10)),
            (''maxMemories'', JNum 5),
            (''keywordPatterns'',
               JArr [JStr ''remember'', JStr ''note'', JStr ''save this'', JStr ''important'',
                     JStr ''don't forget'', JStr ''keep in mind'']),
            (''injection'', JObj [(''topK'', JNum 7)])]
   \<and> get_prop (projr (loadConfig_gemini
         (FileJson (JObj [(''injection'', JObj [(''topK'', JNum 7)])])))) ''injection''
       = JObj [(''topK'', JNum 7)]
   \<and> loadConfig_opencode FileUnparsable = Inr DEFAULT_CONFIG_opencode"
  using loadConfig_total_shallow
          [of "FileJson (JObj [(''injection'', JObj [(''topK'', JNum 7)])])"]
        loadConfig_total_shallow [of FileUnparsable]
  by (simp add: loadConfig_gemini_def read_config_def spread_def DEFAULT_CONFIG_gemini_def
      get_prop_def)

section \<open>Properties of memory trigger detection\<close>















section \<open>Properties of the health check\<close>







section \<open>Properties of the search timeout\<close>

lemma searchMemories_opencode_fetch:
  "searchMemories_opencode e c q st k sid t w =
     (let req = search_request c q st k sid t; w' = w\<lparr>sent := sent w @ [req]\<rparr> in
      case service e (sent w) req of
        Unreachable d code \<Rightarrow>
          if d < t then Some (Inl cannot_connect, w')
          else Some (Inl (CogneeUnavailableError ''Cognee search timed out''), w')
      | Responds d r \<Rightarrow>
          if d < t
          then (if \<not> ok r
                then Some (Inl (CogneeAPIError (''Cognee search failed: '' @ body_text r) (status r)), w')
                else (case body_json r of
                        None \<Rightarrow> Some (Inl (BuiltinError ''SyntaxError'' ''Unexpected token in JSON'' None), w')
                      | Some data \<Rightarrow> Some (extractSearchResults data, w')))
          else Some (Inl (CogneeUnavailableError ''Cognee search timed out''), w')
      | Silent \<Rightarrow> Some (Inl (CogneeUnavailableError ''Cognee search timed out''), w'))"
  by (simp add: searchMemories_opencode_def search_request_def io_bind_def io_catch_def
      fetch_def Let_def io_throw_def io_return_def io_lift_def response_json_def
      signal_ms_def abort_error_def
      split: fetch_outcome.splits option.splits)




section \<open>Properties of search result normalisation\<close>

text \<open>
  \<open>extractSearchResults\<close> of client.ts on the three payload shapes: a string is wrapped,
  an array of strings is wrapped element by element in order, an object with a
  \<open>results\<close> array is normalised as that array, and no result of an array of strings
  and objects has an undefined content.
\<close>

lemma extract_item_ok:
  "string_or_object item \<Longrightarrow>
     \<exists>rs. extract_item item = Inr rs \<and> length rs \<le> 1
        \<and> list_all (\<lambda>r. content r \<noteq> JUndefined) rs"
  by (cases item)
     (auto simp: string_or_object_def extract_item_def nullish_def)

lemma extract_item_string: "extract_item (JStr s) = Inr [\<lparr>content = JStr s, metadata = None\<rparr>]"
  by (simp add: extract_item_def)

lemma map_result_extract_ok:
  "list_all string_or_object items \<Longrightarrow>
     \<exists>rss. map_result extract_item items = Inr rss
        \<and> list_all (\<lambda>rs. list_all (\<lambda>r. content r \<noteq> JUndefined) rs) rss"
proof (induction items)
  case Nil
  then show ?case by simp
next
  case (Cons item items)
  then obtain rss where rss: "map_result extract_item items = Inr rss"
      "list_all (\<lambda>rs. list_all (\<lambda>r. content r \<noteq> JUndefined) rs) rss"
    by auto
  from Cons.prems obtain rs where rs: "extract_item item = Inr rs"
      "list_all (\<lambda>r. content r \<noteq> JUndefined) rs"
    using extract_item_ok [of item] by auto
  show ?case using rss rs by simp
qed

lemma extract_array_ok:
  "list_all string_or_object items \<Longrightarrow>
     \<exists>rs. extract_array items = Inr rs \<and> list_all (\<lambda>r. content r \<noteq> JUndefined) rs"
proof -
  assume "list_all string_or_object items"
  then obtain rss where rss: "map_result extract_item items = Inr rss"
      "list_all (\<lambda>rs. list_all (\<lambda>r. content r \<noteq> JUndefined) rs) rss"
    using map_result_extract_ok by blast
  have "list_all (\<lambda>r. content r \<noteq> JUndefined) (concat rss)"
    using rss(2) by (induction rss) auto
  then show ?thesis using rss(1) by (simp add: extract_array_def)
qed

lemma extract_array_strings:
  "extract_array (map JStr ss) = Inr (map (\<lambda>s. \<lparr>content = JStr s, metadata = None\<rparr>) ss)"
proof -
  have "map_result extract_item (map JStr ss)
      = Inr (map (\<lambda>s. [\<lparr>content = JStr s, metadata = None\<rparr>]) ss)"
    by (induction ss) (simp_all add: extract_item_string)
  then show ?thesis by (simp add: extract_array_def concat_map_singleton)
qed

lemma extractSearchResults_shapes:
  "extractSearchResults (JStr s) = Inr [\<lparr>content = JStr s, metadata = None\<rparr>]
   \<and> extractSearchResults (JArr (map JStr ss))
       = Inr (map (\<lambda>s. \<lparr>content = JStr s, metadata = None\<rparr>) ss)
   \<and> (get_prop ps ''results'' = JArr items \<longrightarrow>
        extractSearchResults (JObj ps) = extractSearchResults (JArr items))
   \<and> (list_all string_or_object items \<longrightarrow>
        (\<exists>rs. extractSearchResults (JArr items) = Inr rs
              \<and> list_all (\<lambda>r. content r \<noteq> JUndefined) rs))"
proof -
  have a: "list_all string_or_object items \<longrightarrow>
        (\<exists>rs. extractSearchResults (JArr items) = Inr rs
              \<and> list_all (\<lambda>r. content r \<noteq> JUndefined) rs)"
  proof
    assume "list_all string_or_object items"
    then obtain rs where "extract_array items = Inr rs" "list_all (\<lambda>r. content r \<noteq> JUndefined) rs"
      using extract_array_ok by blast
    then show "\<exists>rs. extractSearchResults (JArr items) = Inr rs
              \<and> list_all (\<lambda>r. content r \<noteq> JUndefined) rs"
      by (auto simp: extractSearchResults_def)
  qed
  show ?thesis
    using a by (simp add: extractSearchResults_def extract_array_strings js_get_def nullish_def)
qed

lemma show_nat_500: "show_nat 500 = ''500''"
  by (simp add: show_nat.simps digit_char_def)

text \<open>
  C2. For every search response of the three shapes (an array, an object
  \<open>{results: [...]}\<close>, a string) \<open>searchMemories\<close> should return the flat ordered
  sequence of results. server.js does not for the \<open>{results: [...]}\<close> shape: instead of
  normalising \<open>result.results\<close> it calls \<open>searchMemories(result.results)\<close>, which sends
  a second search request with the results array as the query, and what comes back is
  whatever the service answers to that. Here the service answers the first request with
  \<^verbatim>\<open>{"results": ["a"]}\<close> and the second with status 500: server.js throws, where
  client.ts normalises the same payload to the one result \<open>a\<close>.
\<close>

theorem searchMemories_gemini_results_shape:
  "searchMemories_gemini (example_env results_then_error (\<lambda>n. 0)) (JStr ''ports'') ''CHUNKS'' 5 None
     world0
   = Some (Inl (BuiltinError ''Error'' ''Cognee API error (500): Internal Server Error'' None),
           world0\<lparr>sent := [first_search_request, second_search_request]\<rparr>)
   \<and> extractSearchResults (JObj [(''results'', JArr [JStr ''a''])])
       = Inr [\<lparr>content = JStr ''a'', metadata = None\<rparr>]"
proof -
  let ?e = "example_env results_then_error (\<lambda>n. 0)"
  have first: "cogneeRequest ?e ''/api/v1/search'' ''POST''
        (JsonBody (search_body (JStr ''ports'') ''CHUNKS'' 5 None)) world0
      = Some (Inr (JObj [(''results'', JArr [JStr ''a''])]),
              world0\<lparr>sent := [first_search_request]\<rparr>)"
    by (simp add: cogneeRequest_def io_catch_def io_bind_def fetch_def example_env_def
        results_then_error_def world0_def ok_def response_json_def io_return_def
        search_body_def truthy_str_def bearer_def first_search_request_def)
  have second: "cogneeRequest ?e ''/api/v1/search'' ''POST''
        (JsonBody (search_body (JArr [JStr ''a'']) ''GRAPH_COMPLETION'' 10 None))
        (world0\<lparr>sent := [first_search_request]\<rparr>)
      = Some (Inl (BuiltinError ''Error'' ''Cognee API error (500): Internal Server Error'' None),
              world0\<lparr>sent := [first_search_request, second_search_request]\<rparr>)"
    by (simp add: cogneeRequest_def io_catch_def io_bind_def fetch_def example_env_def
        results_then_error_def world0_def ok_def io_throw_def show_nat_500
        search_body_def truthy_str_def bearer_def second_search_request_def)
  have inner: "searchMemories_gemini ?e (JArr [JStr ''a'']) ''GRAPH_COMPLETION'' 10 None
        (world0\<lparr>sent := [first_search_request]\<rparr>)
      = Some (Inl (BuiltinError ''Error'' ''Cognee API error (500): Internal Server Error'' None),
              world0\<lparr>sent := [first_search_request, second_search_request]\<rparr>)"
    by (subst searchMemories_gemini.simps) (simp add: second)
  have outer: "searchMemories_gemini ?e (JStr ''ports'') ''CHUNKS'' 5 None world0
      = Some (Inl (BuiltinError ''Error'' ''Cognee API error (500): Internal Server Error'' None),
              world0\<lparr>sent := [first_search_request, second_search_request]\<rparr>)"
    by (subst searchMemories_gemini.simps)
       (simp add: first is_array_def js_get_def nullish_def get_prop_def inner)
  have "extractSearchResults (JObj [(''results'', JArr [JStr ''a''])])
       = Inr [\<lparr>content = JStr ''a'', metadata = None\<rparr>]"
    by (simp add: extractSearchResults_def js_get_def nullish_def get_prop_def
        extract_array_def extract_item_def)
  with outer show ?thesis by simp
qed

section \<open>Properties of the tool handlers\<close>

lemma io_catch_cases:
  "io_catch m h w =
     (case m w of
        None \<Rightarrow> None
      | Some (Inl err, w') \<Rightarrow> h err w'
      | Some (Inr x, w') \<Rightarrow> Some (Inr x, w'))"
  by (simp add: io_catch_def)

lemma tool_catch_opencode_returns:
  "tool_catch_opencode err w
     = Some (Inr (failure (error_message err)), w\<lparr>toasts := toasts w @ [error_toast err]\<rparr>)"
  by (cases err)
     (simp_all add: tool_catch_opencode_def io_bind_def showToast_def io_return_def
        error_toast_def)

text \<open>
  C1. For every action (help, search, timeline, add, list or any other string) and every
  error raised while it is handled (\<open>CogneeUnavailableError\<close>, \<open>CogneeAPIError\<close>, or
  any other error), the tool handler returns a payload with \<open>success: false\<close> and the
  error's message as \<open>error\<close>; a payload the \<open>try\<close> block returns is passed on; and the
  handler never throws. This holds for the handler of server.js and for the plugin's
  \<open>execute\<close>.
\<close>

theorem tool_handlers_never_throw:
  "cognee_tool_gemini e args w \<noteq> Some (Inl err, w')
   \<and> cognee_tool_opencode e c sid args w \<noteq> Some (Inl err, w')
   \<and> (tool_try_gemini e args w = Some (Inl err, w') \<longrightarrow>
        (\<exists>hint. cognee_tool_gemini e args w
           = Some (Inr (JObj [(''success'', JBool False),
                              (''error'', JStr (error_message err)),
                              (''hint'', hint)]), w')))
   \<and> (tool_try_opencode e c sid args w = Some (Inl err, w') \<longrightarrow>
        cognee_tool_opencode e c sid args w
           = Some (Inr (JObj [(''success'', JBool False),
                              (''error'', JStr (error_message err))]),
                   w'\<lparr>toasts := toasts w' @ [error_toast err]\<rparr>))
   \<and> (tool_try_gemini e args w = Some (Inr p, w') \<longrightarrow>
        cognee_tool_gemini e args w = Some (Inr p, w'))
   \<and> (tool_try_opencode e c sid args w = Some (Inr p, w') \<longrightarrow>
        cognee_tool_opencode e c sid args w = Some (Inr p, w'))"
proof -
  have g1: "cognee_tool_gemini e args w \<noteq> Some (Inl err, w')"
    by (simp add: cognee_tool_gemini_def io_catch_cases tool_catch_gemini_def io_return_def
        split: option.splits sum.splits prod.splits)
  have o1: "cognee_tool_opencode e c sid args w \<noteq> Some (Inl err, w')"
  proof (cases "tool_try_opencode e c sid args w")
    case None
    then show ?thesis by (simp add: cognee_tool_opencode_def io_catch_cases)
  next
    case (Some res)
    obtain r w1 where res: "res = (r, w1)" by (cases res)
    show ?thesis
    proof (cases r)
      case (Inl err1)
      then show ?thesis
        using Some res tool_catch_opencode_returns [of err1 w1]
        by (auto simp: cognee_tool_opencode_def io_catch_cases)
    next
      case (Inr x)
      then show ?thesis using Some res by (simp add: cognee_tool_opencode_def io_catch_cases)
    qed
  qed
  have g2: "tool_try_gemini e args w = Some (Inl err, w') \<longrightarrow>
        (\<exists>hint. cognee_tool_gemini e args w
           = Some (Inr (JObj [(''success'', JBool False),
                              (''error'', JStr (error_message err)),
                              (''hint'', hint)]), w'))"
    by (simp add: cognee_tool_gemini_def io_catch_cases tool_catch_gemini_def io_return_def)
  have o2: "tool_try_opencode e c sid args w = Some (Inl err, w') \<longrightarrow>
        cognee_tool_opencode e c sid args w
           = Some (Inr (JObj [(''success'', JBool False),
                              (''error'', JStr (error_message err))]),
                   w'\<lparr>toasts := toasts w' @ [error_toast err]\<rparr>)"
    using tool_catch_opencode_returns [of err w']
    by (auto simp: cognee_tool_opencode_def io_catch_cases failure_def)
  have g3: "tool_try_gemini e args w = Some (Inr p, w') \<longrightarrow>
        cognee_tool_gemini e args w = Some (Inr p, w')"
    by (simp add: cognee_tool_gemini_def io_catch_cases)
  have o3: "tool_try_opencode e c sid args w = Some (Inr p, w') \<longrightarrow>
        cognee_tool_opencode e c sid args w = Some (Inr p, w')"
    by (simp add: cognee_tool_opencode_def io_catch_cases)
  from g1 o1 g2 o2 g3 o3 show ?thesis by blast
qed

lemma tool_try_opencode_refused:
  "tool_try_opencode (example_env refusing_service (\<lambda>n. 0)) example_client None
     (search_args (Some ''ports'')) world0
   = Some (Inl (CogneeUnavailableError ''Cannot connect to Cognee server''),
           world0\<lparr>sent := [search_request example_client ''ports'' ''GRAPH_COMPLETION'' 10 None 3000]\<rparr>)"
  by (simp add: tool_try_opencode_def search_args_def or_default_def truthy_str_def
      number_or_def io_bind_def searchMemories_opencode_fetch Let_def example_env_def
      refusing_service_def cannot_connect_def world0_def)

theorem tool_handlers_never_throw_witness:
  "cognee_tool_opencode (example_env refusing_service (\<lambda>n. 0)) example_client None
     (search_args (Some ''ports'')) world0
   = Some (Inr (JObj [(''success'', JBool False),
                      (''error'', JStr ''Cannot connect to Cognee server'')]),
           world0\<lparr>sent := [search_request example_client ''ports'' ''GRAPH_COMPLETION'' 10 None 3000],
                   toasts := [(''Cognee unavailable'', ''error'')]\<rparr>)"
  using tool_handlers_never_throw
    [of "example_env refusing_service (\<lambda>n. 0)" "search_args (Some ''ports'')" world0
        "CogneeUnavailableError ''Cannot connect to Cognee server''"
        "world0\<lparr>sent := [search_request example_client ''ports'' ''GRAPH_COMPLETION'' 10 None 3000]\<rparr>"
        example_client None]
    tool_try_opencode_refused
  by (simp add: world0_def error_toast_def)

lemma gemini_search_no_query:
  "or_default (arg_action args) ''help'' = ''search'' \<Longrightarrow> \<not> truthy_str (arg_query args) \<Longrightarrow>
     cognee_tool_gemini e args w
       = Some (Inr (failure ''query parameter required for search''), w)"
  by (simp add: cognee_tool_gemini_def io_catch_cases tool_try_gemini_def io_return_def Let_def)

lemma gemini_timeline_no_query:
  "or_default (arg_action args) ''help'' = ''timeline'' \<Longrightarrow> \<not> truthy_str (arg_query args) \<Longrightarrow>
     cognee_tool_gemini e args w
       = Some (Inr (failure ''query parameter required for timeline''), w)"
  by (simp add: cognee_tool_gemini_def io_catch_cases tool_try_gemini_def io_return_def Let_def)

lemma gemini_add_no_content:
  "or_default (arg_action args) ''help'' = ''add'' \<Longrightarrow> \<not> truthy_str (arg_content args) \<Longrightarrow>
     cognee_tool_gemini e args w
       = Some (Inr (failure ''content parameter required for add''), w)"
  by (simp add: cognee_tool_gemini_def io_catch_cases tool_try_gemini_def io_return_def Let_def)

lemma opencode_search_no_query:
  "or_default (arg_action args) ''help'' = ''search'' \<Longrightarrow> \<not> truthy_str (arg_query args) \<Longrightarrow>
     cognee_tool_opencode e c sid args w
       = Some (Inr (failure ''query parameter is required for search action''), w)"
  by (simp add: cognee_tool_opencode_def io_catch_cases tool_try_opencode_def io_return_def
      Let_def)

lemma opencode_timeline_no_query:
  "or_default (arg_action args) ''help'' = ''timeline'' \<Longrightarrow> \<not> truthy_str (arg_query args) \<Longrightarrow>
     cognee_tool_opencode e c sid args w
       = Some (Inr (failure ''query parameter is required for timeline action''), w)"
  by (simp add: cognee_tool_opencode_def io_catch_cases tool_try_opencode_def io_return_def
      Let_def)

lemma opencode_add_no_content:
  "or_default (arg_action args) ''help'' = ''add'' \<Longrightarrow> \<not> truthy_str (arg_content args) \<Longrightarrow>
     cognee_tool_opencode e c sid args w
       = Some (Inr (failure ''content parameter is required for add action''), w)"
  by (simp add: cognee_tool_opencode_def io_catch_cases tool_try_opencode_def io_return_def
      Let_def)

lemma or_default_Some: "a \<noteq> [] \<Longrightarrow> or_default (Some a) d = a"
  by (simp add: or_default_def truthy_str_def)

lemma not_truthy_str: "(\<not> truthy_str a) = (a = None \<or> a = Some [])"
  by (cases a) (simp_all add: truthy_str_def)

text \<open>
  C8. \<open>search\<close> and \<open>timeline\<close> invoked with no query (missing or empty), and \<open>add\<close>
  invoked with missing or empty content, return a failure payload and leave the world as
  it was: no request is sent to the remote service. This holds for both handlers.
\<close>

theorem tool_validation_sends_nothing:
  "((arg_action args = Some ''search'' \<or> arg_action args = Some ''timeline'')
     \<and> (arg_query args = None \<or> arg_query args = Some []) \<longrightarrow>
       (\<exists>m. cognee_tool_gemini e args w = Some (Inr (failure m), w))
       \<and> (\<exists>m. cognee_tool_opencode e c sid args w = Some (Inr (failure m), w)))
   \<and> (arg_action args = Some ''add''
        \<and> (arg_content args = None \<or> arg_content args = Some []) \<longrightarrow>
       (\<exists>m. cognee_tool_gemini e args w = Some (Inr (failure m), w))
       \<and> (\<exists>m. cognee_tool_opencode e c sid args w = Some (Inr (failure m), w)))"
proof (intro conjI impI)
  assume a: "(arg_action args = Some ''search'' \<or> arg_action args = Some ''timeline'')
     \<and> (arg_query args = None \<or> arg_query args = Some [])"
  then have q: "\<not> truthy_str (arg_query args)" by (simp add: not_truthy_str)
  from a have "or_default (arg_action args) ''help'' = ''search''
      \<or> or_default (arg_action args) ''help'' = ''timeline''"
    by (auto simp: or_default_Some)
  then show "\<exists>m. cognee_tool_gemini e args w = Some (Inr (failure m), w)"
    using q gemini_search_no_query gemini_timeline_no_query by blast
next
  assume a: "(arg_action args = Some ''search'' \<or> arg_action args = Some ''timeline'')
     \<and> (arg_query args = None \<or> arg_query args = Some [])"
  then have q: "\<not> truthy_str (arg_query args)" by (simp add: not_truthy_str)
  from a have "or_default (arg_action args) ''help'' = ''search''
      \<or> or_default (arg_action args) ''help'' = ''timeline''"
    by (auto simp: or_default_Some)
  then show "\<exists>m. cognee_tool_opencode e c sid args w = Some (Inr (failure m), w)"
    using q opencode_search_no_query opencode_timeline_no_query by blast
next
  assume a: "arg_action args = Some ''add''
        \<and> (arg_content args = None \<or> arg_content args = Some [])"
  then have q: "\<not> truthy_str (arg_content args)" by (simp add: not_truthy_str)
  from a have "or_default (arg_action args) ''help'' = ''add''" by (simp add: or_default_Some)
  then show "\<exists>m. cognee_tool_gemini e args w = Some (Inr (failure m), w)"
    using q gemini_add_no_content by blast
next
  assume a: "arg_action args = Some ''add''
        \<and> (arg_content args = None \<or> arg_content args = Some [])"
  then have q: "\<not> truthy_str (arg_content args)" by (simp add: not_truthy_str)
  from a have "or_default (arg_action args) ''help'' = ''add''" by (simp add: or_default_Some)
  then show "\<exists>m. cognee_tool_opencode e c sid args w = Some (Inr (failure m), w)"
    using q opencode_add_no_content by blast
qed

theorem tool_validation_sends_nothing_witness:
  "(\<exists>m. cognee_tool_gemini (example_env refusing_service (\<lambda>n. 0)) (search_args None) world0
          = Some (Inr (failure m), world0))
   \<and> (\<exists>m. cognee_tool_opencode (example_env refusing_service (\<lambda>n. 0)) example_client None
            (search_args None) world0
          = Some (Inr (failure m), world0))
   \<and> sent world0 = []"
  using tool_validation_sends_nothing
    [of "search_args None" "example_env refusing_service (\<lambda>n. 0)" world0 example_client None]
  by (simp add: search_args_def world0_def)

section \<open>Properties of the session lifecycle\<close>

lemma addMemory_opencode_cases:
  "addMemory_opencode e c text ds tags w =
     (case service e (sent w) (add_request c text ds tags) of
        Unreachable d code \<Rightarrow>
          Some (Inl cannot_connect, w\<lparr>sent := sent w @ [add_request c text ds tags]\<rparr>)
      | Responds d r \<Rightarrow>
          if ok r
          then Some (Inr \<lparr>success = True, message = None\<rparr>,
                     w\<lparr>sent := sent w @ [add_request c text ds tags]\<rparr>)
          else Some (Inl (CogneeAPIError (''Cognee add failed: '' @ body_text r) (status r)),
                     w\<lparr>sent := sent w @ [add_request c text ds tags]\<rparr>)
      | Silent \<Rightarrow> None)"
  by (simp add: addMemory_opencode_def add_request_def io_bind_def io_catch_def fetch_def
      Let_def io_throw_def io_return_def split: fetch_outcome.splits)

lemma cognify_opencode_cases:
  "cognify_opencode e c ds o1 o2 w =
     (case service e (sent w) (cognify_request c ds o1 o2) of
        Unreachable d code \<Rightarrow>
          Some (Inl cannot_connect, w\<lparr>sent := sent w @ [cognify_request c ds o1 o2]\<rparr>)
      | Responds d r \<Rightarrow>
          if ok r
          then Some (Inr \<lparr>success = True, message = None\<rparr>,
                     w\<lparr>sent := sent w @ [cognify_request c ds o1 o2]\<rparr>)
          else Some (Inl (CogneeAPIError (''Cognee cognify failed: '' @ body_text r) (status r)),
                     w\<lparr>sent := sent w @ [cognify_request c ds o1 o2]\<rparr>)
      | Silent \<Rightarrow> None)"
  by (simp add: cognify_opencode_def cognify_request_def io_bind_def io_catch_def fetch_def
      Let_def io_throw_def io_return_def split: fetch_outcome.splits)

lemma save_failed_returns:
  "\<exists>w'. save_failed err w = Some (Inr (), w')"
  by (cases err) (simp_all add: save_failed_def showToast_def)

lemma addMemory_opencode_settles:
  "answering e \<Longrightarrow> \<exists>r w'. addMemory_opencode e c text ds tags w = Some (r, w')"
  by (cases "service e (sent w) (add_request c text ds tags)")
     (auto simp: addMemory_opencode_cases answering_def)

lemma cognify_opencode_settles:
  "answering e \<Longrightarrow> \<exists>r w'. cognify_opencode e c ds o1 o2 w = Some (r, w')"
  by (cases "service e (sent w) (cognify_request c ds o1 o2)")
     (auto simp: cognify_opencode_cases answering_def)

lemma addMemory_opencode_success:
  "addMemory_opencode e c text ds tags w = Some (Inr r, w') \<Longrightarrow> success r"
  by (auto simp: addMemory_opencode_cases split: fetch_outcome.splits if_splits)

lemma save_session_caught:
  assumes "answering e"
  shows "\<exists>w'. io_catch (save_session e c sid state) save_failed w = Some (Inr (), w')"
proof -
  let ?w0 = "w\<lparr>ticks := Suc (ticks w)\<rparr>"
  let ?doc = "sessionContext sid state (clock e (ticks w))"
  obtain r1 w1 where add: "addMemory_opencode e c ?doc ''default_user''
      (sessionNodeSets (startTime state)) ?w0 = Some (r1, w1)"
    using addMemory_opencode_settles [OF assms] by blast
  show ?thesis
  proof (cases r1)
    case (Inl err)
    then have "save_session e c sid state w = Some (Inl err, w1)"
      using add by (simp add: save_session_def io_bind_def Date_now_def)
    then show ?thesis using save_failed_returns [of err w1] by (auto simp: io_catch_def)
  next
    case (Inr res)
    then have ok: "success res" using add addMemory_opencode_success by blast
    obtain r2 w2 where cog: "cognify_opencode e c ''default_user'' False True w1 = Some (r2, w2)"
      using cognify_opencode_settles [OF assms] by blast
    show ?thesis
    proof (cases r2)
      case (Inl err)
      then have "save_session e c sid state w = Some (Inl err, w2)"
        using add cog Inr ok by (simp add: save_session_def io_bind_def Date_now_def)
      then show ?thesis using save_failed_returns [of err w2] by (auto simp: io_catch_def)
    next
      case (Inr res2)
      then have "save_session e c sid state w
          = Some (Inr (), w2\<lparr>toasts := toasts w2 @ [(''Session saved to memory'', ''success'')]\<rparr>)"
        using add cog \<open>r1 = Inr res\<close> ok
        by (simp add: save_session_def io_bind_def Date_now_def showToast_def)
      then show ?thesis by (simp add: io_catch_def)
    qed
  qed
qed

lemma flush_sessions_returns:
  assumes "answering e"
  shows "\<exists>st' w'. flush_sessions e c entries st w = Some (Inr st', w')
           \<and> conversations st' = filter (\<lambda>kv. fst kv \<notin> flushed_ids entries) (conversations st)
           \<and> injectedSessions st' = filter (\<lambda>k. k \<notin> flushed_ids entries) (injectedSessions st)"
proof (induction entries arbitrary: st w)
  case Nil
  then show ?case by (simp add: flushed_ids_def)
next
  case (Cons entry entries)
  obtain sid state where entry: "entry = (sid, state)" by (cases entry)
  show ?case
  proof (cases "messages state = []")
    case True
    have "flushed_ids (entry # entries) = flushed_ids entries"
      using True entry by (auto simp: flushed_ids_def)
    then show ?thesis using Cons.IH [of st w] True entry by simp
  next
    case False
    obtain w1 where saved: "io_catch (save_session e c sid state) save_failed w = Some (Inr (), w1)"
      using save_session_caught [OF assms] by blast
    let ?st1 = "st\<lparr>conversations := map_delete sid (conversations st),
                  injectedSessions := removeAll sid (injectedSessions st)\<rparr>"
    obtain st' w' where rest: "flush_sessions e c entries ?st1 w1 = Some (Inr st', w')"
        "conversations st' = filter (\<lambda>kv. fst kv \<notin> flushed_ids entries) (conversations ?st1)"
        "injectedSessions st' = filter (\<lambda>k. k \<notin> flushed_ids entries) (injectedSessions ?st1)"
      using Cons.IH [of ?st1 w1] by blast
    have ids: "flushed_ids (entry # entries) = insert sid (flushed_ids entries)"
      using False entry by (auto simp: flushed_ids_def)
    have "flush_sessions e c (entry # entries) st w = Some (Inr st', w')"
      using False entry saved rest(1) by simp
    moreover have "conversations st'
        = filter (\<lambda>kv. fst kv \<notin> flushed_ids (entry # entries)) (conversations st)"
      using rest(2) ids by (auto simp: map_delete_def intro: filter_cong)
    moreover have "injectedSessions st'
        = filter (\<lambda>k. k \<notin> flushed_ids (entry # entries)) (injectedSessions st)"
      using rest(3) ids by (auto simp: removeAll_filter_not_eq intro: filter_cong)
    ultimately show ?thesis by blast
  qed
qed

lemma event_handler_flushes:
  assumes "answering e" and "well_formed st"
    and "ty = ''session.idle'' \<or> ty = ''session.end''"
  shows "\<exists>st' w'. event_handler e c ty st w = Some (Inr st', w') \<and> conversations st' = []
           \<and> set (injectedSessions st') \<inter> fst ` set (conversations st) = {}"
proof -
  obtain st' w' where r: "flush_sessions e c (conversations st) st w = Some (Inr st', w')"
      "conversations st' = filter (\<lambda>kv. fst kv \<notin> flushed_ids (conversations st)) (conversations st)"
      "injectedSessions st' = filter (\<lambda>k. k \<notin> flushed_ids (conversations st)) (injectedSessions st)"
    using flush_sessions_returns [OF assms(1)] by blast
  have all: "flushed_ids (conversations st) = fst ` set (conversations st)"
  proof -
    have "filter (\<lambda>kv. messages (snd kv) \<noteq> []) (conversations st) = conversations st"
      using assms(2) by (simp add: well_formed_def list_all_iff)
    then show ?thesis by (simp add: flushed_ids_def)
  qed
  have "conversations st' = []" using r(2) all by (auto simp: filter_empty_conv)
  moreover have "set (injectedSessions st') \<inter> fst ` set (conversations st) = {}"
    using r(3) all by auto
  ultimately show ?thesis using r(1) assms(3) by (auto simp: event_handler_def)
qed

lemma map_of_map_set: "map_of (map_set k v kvs) = (map_of kvs)(k \<mapsto> v)"
  by (induction kvs) auto

lemma keys_map_set:
  "map fst (map_set k v kvs) = (if k \<in> set (map fst kvs) then map fst kvs else map fst kvs @ [k])"
  by (induction kvs) (auto simp: rev_image_eqI)

lemma distinct_map_set: "distinct (map fst kvs) \<Longrightarrow> distinct (map fst (map_set k v kvs))"
  by (simp add: keys_map_set)

lemma list_all_map_set: "P (k, v) \<Longrightarrow> list_all P kvs \<Longrightarrow> list_all P (map_set k v kvs)"
  by (induction kvs) auto

lemma track_message_result:
  "\<exists>w'. track_message e sid text st w
     = Some (Inr (st\<lparr>conversations := map_set sid (tracked e sid text st w) (conversations st)\<rparr>),
             w') \<and> sent w' = sent w"
  by (cases "map_of (conversations st) sid")
     (simp_all add: track_message_def tracked_def io_bind_def io_return_def Date_now_def)

lemma nudge_returns: "\<exists>ps w'. nudge e cfg text parts w = Some (Inr ps, w')"
  by (simp add: nudge_def io_bind_def io_return_def showToast_def Date_now_def)

lemma searchMemories_opencode_settles:
  "\<exists>r w'. searchMemories_opencode e c q st k sid t w = Some (r, w')"
  by (simp add: searchMemories_opencode_fetch Let_def split: fetch_outcome.splits option.splits)

lemma inject_memories_returns:
  "\<exists>ps w'. inject_memories e cfg c sid text parts w = Some (Inr ps, w')"
proof -
  obtain r w1 where s: "searchMemories_opencode e c text (injection_searchType cfg)
      (injection_topK cfg) (Some sid) 3000 w = Some (r, w1)"
    using searchMemories_opencode_settles by blast
  show ?thesis
  proof (cases r)
    case (Inl err)
    then show ?thesis
      using s
      by (cases err)
         (simp_all add: inject_memories_def io_catch_def io_bind_def showToast_def io_return_def)
  next
    case (Inr memories)
    then show ?thesis
      using s
      by (simp add: inject_memories_def io_catch_def io_bind_def showToast_def io_return_def
          Date_now_def)
  qed
qed

lemma chat_message_blank:
  "trim (user_text parts) = [] \<Longrightarrow> chat_message e cfg c sid parts st w = Some (Inr (st, parts), w)"
  by (auto simp: chat_message_def user_text_def io_catch_def io_return_def)

lemma user_text_nonblank:
  "trim (user_text parts) \<noteq> [] \<Longrightarrow> filter (\<lambda>p. part_type p = ''text'') parts \<noteq> []"
  by (auto simp: user_text_def trim_def)

lemma chat_message_effect:
  assumes "trim (user_text parts) \<noteq> []"
  shows "\<exists>parts' w'. chat_message e cfg c sid parts st w
     = Some (Inr (st\<lparr>conversations :=
                       map_set sid (tracked e sid (user_text parts) st w) (conversations st),
                     injectedSessions :=
                       (if sid \<in> set (injectedSessions st) then injectedSessions st
                        else injectedSessions st @ [sid])\<rparr>, parts'), w')"
proof -
  let ?text = "user_text parts"
  let ?st1 = "st\<lparr>conversations := map_set sid (tracked e sid ?text st w) (conversations st)\<rparr>"
  obtain w1 where t: "track_message e sid ?text st w = Some (Inr ?st1, w1)"
    using track_message_result by blast
  obtain ps1 w2 where n: "nudge e cfg ?text parts w1 = Some (Inr ps1, w2)"
    using nudge_returns by blast
  obtain ps2 w3 where i: "inject_memories e cfg c sid ?text ps1 w2 = Some (Inr ps2, w3)"
    using inject_memories_returns by blast
  have ne: "filter (\<lambda>p. part_type p = ''text'') parts \<noteq> []"
    using assms by (rule user_text_nonblank)
  show ?thesis
  proof (cases "sid \<in> set (injectedSessions st)")
    case True
    have "chat_message e cfg c sid parts st w = Some (Inr (?st1, ps1), w2)"
      using assms ne t n True
      by (simp add: chat_message_def io_catch_def io_bind_def io_return_def
          user_text_def [symmetric])
    then show ?thesis using True by (simp cong: plugin_state.fold_congs) 
  next
    case False
    have "chat_message e cfg c sid parts st w
        = Some (Inr (?st1\<lparr>injectedSessions := injectedSessions ?st1 @ [sid]\<rparr>, ps2), w3)"
      using assms ne t n i False
      by (simp add: chat_message_def io_catch_def io_bind_def io_return_def
          user_text_def [symmetric])
    then show ?thesis using False by simp
  qed
qed

lemma well_formed_tracked:
  assumes "well_formed st"
  shows "well_formed (st\<lparr>conversations := map_set sid (tracked e sid text st w) (conversations st),
                         injectedSessions := injected\<rparr>)"
proof -
  have "messages (tracked e sid text st w) \<noteq> []"
    by (simp add: tracked_def split: option.splits)
  then have "list_all (\<lambda>kv. messages (snd kv) \<noteq> [])
      (map_set sid (tracked e sid text st w) (conversations st))"
    using assms by (intro list_all_map_set) (simp_all add: well_formed_def)
  then show ?thesis using assms by (simp add: well_formed_def distinct_map_set)
qed

lemma chat_message_tracks:
  assumes wf: "well_formed st"
  shows "\<exists>st' parts' w'.
        chat_message e cfg c sid parts st w = Some (Inr (st', parts'), w')
        \<and> well_formed st'
        \<and> (trim (user_text parts) \<noteq> [] \<and> map_of (conversations st) sid = None \<longrightarrow>
             map_of (conversations st') sid
               = Some \<lparr>messages = [\<lparr>msg_role = ''user'', msg_content = user_text parts,
                                    msg_timestamp = clock e (Suc (ticks w))\<rparr>],
                       startTime = clock e (ticks w)\<rparr>)
        \<and> (\<forall>state. trim (user_text parts) \<noteq> [] \<and> map_of (conversations st) sid = Some state \<longrightarrow>
             map_of (conversations st') sid
               = Some (state\<lparr>messages := messages state
                                @ [\<lparr>msg_role = ''user'', msg_content = user_text parts,
                                    msg_timestamp = clock e (ticks w)\<rparr>]\<rparr>))
        \<and> (\<forall>other. other \<noteq> sid \<longrightarrow>
             map_of (conversations st') other = map_of (conversations st) other)"
proof (cases "trim (user_text parts) = []")
  case True
  then show ?thesis using wf chat_message_blank [of parts e cfg c sid st w] by simp
next
  case False
  let ?inj = "if sid \<in> set (injectedSessions st) then injectedSessions st
              else injectedSessions st @ [sid]"
  let ?st' = "st\<lparr>conversations :=
                   map_set sid (tracked e sid (user_text parts) st w) (conversations st),
                 injectedSessions := ?inj\<rparr>"
  obtain parts' w' where r: "chat_message e cfg c sid parts st w = Some (Inr (?st', parts'), w')"
    using chat_message_effect [OF False] by blast
  have "well_formed ?st'" using wf by (rule well_formed_tracked)
  moreover have "map_of (conversations ?st') sid = Some (tracked e sid (user_text parts) st w)"
    by (simp add: map_of_map_set)
  moreover have "\<forall>other. other \<noteq> sid \<longrightarrow>
      map_of (conversations ?st') other = map_of (conversations st) other"
    by (simp add: map_of_map_set)
  ultimately show ?thesis using r by (auto simp: tracked_def)
qed

text \<open>
  C6 (as amended). A session identifier maps to at most one \<open>SessionState\<close> at a
  time. A message with text makes an absent session active, with a fresh state holding
  that one message, and appends to the state of an active one; other sessions are
  untouched. A \<open>session.idle\<close> or \<open>session.end\<close> event, when the service settles
  every request, deletes every tracked session from both collections, whatever the
  outcome of the upload. Nothing remembers a deleted identifier: after the deletion the
  session is absent again, so the next message under the same identifier makes it active
  again with a fresh state.
\<close>

theorem session_lifecycle:
  "well_formed st \<Longrightarrow>
     (\<exists>st' parts' w'.
        chat_message e cfg c sid parts st w = Some (Inr (st', parts'), w')
        \<and> well_formed st'
        \<and> (trim (user_text parts) \<noteq> [] \<and> map_of (conversations st) sid = None \<longrightarrow>
             map_of (conversations st') sid
               = Some \<lparr>messages = [\<lparr>msg_role = ''user'', msg_content = user_text parts,
                                    msg_timestamp = clock e (Suc (ticks w))\<rparr>],
                       startTime = clock e (ticks w)\<rparr>)
        \<and> (\<forall>state. trim (user_text parts) \<noteq> [] \<and> map_of (conversations st) sid = Some state \<longrightarrow>
             map_of (conversations st') sid
               = Some (state\<lparr>messages := messages state
                                @ [\<lparr>msg_role = ''user'', msg_content = user_text parts,
                                    msg_timestamp = clock e (ticks w)\<rparr>]\<rparr>))
        \<and> (\<forall>other. other \<noteq> sid \<longrightarrow>
             map_of (conversations st') other = map_of (conversations st) other))
     \<and> ((ty = ''session.idle'' \<or> ty = ''session.end'') \<and> answering e \<longrightarrow>
          (\<exists>st' w'.
             event_handler e c ty st w = Some (Inr st', w')
             \<and> conversations st' = []
             \<and> set (injectedSessions st') \<inter> fst ` set (conversations st) = {}
             \<and> well_formed st'))"
proof -
  assume wf: "well_formed st"
  have msg: "\<exists>st' parts' w'.
        chat_message e cfg c sid parts st w = Some (Inr (st', parts'), w')
        \<and> well_formed st'
        \<and> (trim (user_text parts) \<noteq> [] \<and> map_of (conversations st) sid = None \<longrightarrow>
             map_of (conversations st') sid
               = Some \<lparr>messages = [\<lparr>msg_role = ''user'', msg_content = user_text parts,
                                    msg_timestamp = clock e (Suc (ticks w))\<rparr>],
                       startTime = clock e (ticks w)\<rparr>)
        \<and> (\<forall>state. trim (user_text parts) \<noteq> [] \<and> map_of (conversations st) sid = Some state \<longrightarrow>
             map_of (conversations st') sid
               = Some (state\<lparr>messages := messages state
                                @ [\<lparr>msg_role = ''user'', msg_content = user_text parts,
                                    msg_timestamp = clock e (ticks w)\<rparr>]\<rparr>))
        \<and> (\<forall>other. other \<noteq> sid \<longrightarrow>
             map_of (conversations st') other = map_of (conversations st) other)"
    using wf by (rule chat_message_tracks)
  have ev: "(ty = ''session.idle'' \<or> ty = ''session.end'') \<and> answering e \<longrightarrow>
          (\<exists>st' w'.
             event_handler e c ty st w = Some (Inr st', w')
             \<and> conversations st' = []
             \<and> set (injectedSessions st') \<inter> fst ` set (conversations st) = {}
             \<and> well_formed st')"
  proof
    assume a: "(ty = ''session.idle'' \<or> ty = ''session.end'') \<and> answering e"
    then obtain st' w' where r: "event_handler e c ty st w = Some (Inr st', w')"
        "conversations st' = []"
        "set (injectedSessions st') \<inter> fst ` set (conversations st) = {}"
      using event_handler_flushes [of e st ty c w] wf by blast
    moreover have "well_formed st'" using r(2) by (simp add: well_formed_def)
    ultimately show "\<exists>st' w'.
             event_handler e c ty st w = Some (Inr st', w')
             \<and> conversations st' = []
             \<and> set (injectedSessions st') \<inter> fst ` set (conversations st) = {}
             \<and> well_formed st'"
      by blast
  qed
  from msg ev show ?thesis by blast
qed

lemma answering_accepting: "answering (example_env accepting_service clk)"
  by (simp add: answering_def example_env_def accepting_service_def)

lemma well_formed_empty: "well_formed empty_state"
  by (simp add: well_formed_def empty_state_def)

lemma nonblank_hi: "trim (user_text [text_part ''hi'']) \<noteq> []"
  by (simp add: user_text_def text_part_def trim_def is_js_space_def)

lemma nonblank_again: "trim (user_text [text_part ''again'']) \<noteq> []"
  by (simp add: user_text_def text_part_def trim_def is_js_space_def)

lemma user_text_single: "user_text [text_part s] = s"
  by (simp add: user_text_def text_part_def)

theorem session_lifecycle_witness:
  "\<exists>st' parts' w'.
      chat_message (example_env accepting_service (ticking_clock 1767225599000))
        default_plugin_config example_client ''s1'' [text_part ''hi''] empty_state world0
        = Some (Inr (st', parts'), w')
      \<and> map_of (conversations st') ''s1''
          = Some \<lparr>messages = [\<lparr>msg_role = ''user'', msg_content = ''hi'',
                               msg_timestamp = 1767225600000\<rparr>],
                  startTime = 1767225599000\<rparr>"
proof -
  let ?e = "example_env accepting_service (ticking_clock 1767225599000)"
  have absent: "map_of (conversations empty_state) ''s1'' = None"
    by (simp add: empty_state_def)
  have c0: "clock ?e (ticks world0) = 1767225599000"
    by (simp add: example_env_def ticking_clock_def world0_def)
  have c1: "clock ?e (Suc (ticks world0)) = 1767225600000"
    by (simp add: example_env_def ticking_clock_def world0_def)
  have "\<exists>st' parts' w'.
      chat_message ?e default_plugin_config example_client ''s1'' [text_part ''hi'']
          empty_state world0 = Some (Inr (st', parts'), w')
      \<and> well_formed st'
      \<and> (trim (user_text [text_part ''hi'']) \<noteq> []
            \<and> map_of (conversations empty_state) ''s1'' = None \<longrightarrow>
          map_of (conversations st') ''s1''
            = Some \<lparr>messages = [\<lparr>msg_role = ''user'', msg_content = user_text [text_part ''hi''],
                                 msg_timestamp = clock ?e (Suc (ticks world0))\<rparr>],
                    startTime = clock ?e (ticks world0)\<rparr>)
      \<and> (\<forall>state. trim (user_text [text_part ''hi'']) \<noteq> []
            \<and> map_of (conversations empty_state) ''s1'' = Some state \<longrightarrow>
          map_of (conversations st') ''s1''
            = Some (state\<lparr>messages := messages state
                       @ [\<lparr>msg_role = ''user'', msg_content = user_text [text_part ''hi''],
                           msg_timestamp = clock ?e (ticks world0)\<rparr>]\<rparr>))
      \<and> (\<forall>other. other \<noteq> ''s1'' \<longrightarrow>
             map_of (conversations st') other = map_of (conversations empty_state) other)"
    by (rule session_lifecycle [OF well_formed_empty, THEN conjunct1])
  then obtain st' parts' w' where
    r: "chat_message ?e default_plugin_config example_client ''s1'' [text_part ''hi'']
          empty_state world0 = Some (Inr (st', parts'), w')"
    and m: "trim (user_text [text_part ''hi'']) \<noteq> []
            \<and> map_of (conversations empty_state) ''s1'' = None \<longrightarrow>
          map_of (conversations st') ''s1''
            = Some \<lparr>messages = [\<lparr>msg_role = ''user'', msg_content = user_text [text_part ''hi''],
                                 msg_timestamp = clock ?e (Suc (ticks world0))\<rparr>],
                    startTime = clock ?e (ticks world0)\<rparr>"
    by (elim exE conjE) (rule that, assumption+)
  have "map_of (conversations st') ''s1''
      = Some \<lparr>messages = [\<lparr>msg_role = ''user'', msg_content = ''hi'',
                           msg_timestamp = 1767225600000\<rparr>],
              startTime = 1767225599000\<rparr>"
    using m [THEN mp, OF conjI, OF nonblank_hi absent] unfolding c0 c1 user_text_single .
  with r show ?thesis by (intro exI conjI)
qed

text \<open>
  The claim's last part fails: after a message, an idle event and another message under
  the same identifier \<open>s1\<close>, the session that was flushed and deleted is tracked again,
  with the second message as its whole transcript.
\<close>

theorem session_revived_counterexample:
  "(case run_plugin (example_env accepting_service (ticking_clock 1767225599000))
           default_plugin_config example_client
           [ChatMessage ''s1'' [text_part ''hi''], HostEvent ''session.idle'']
           empty_state world0 of
      Some (Inr st, w) \<Rightarrow> transcripts st = []
    | _ \<Rightarrow> False)
   \<and> (case run_plugin (example_env accepting_service (ticking_clock 1767225599000))
           default_plugin_config example_client
           [ChatMessage ''s1'' [text_part ''hi''], HostEvent ''session.idle'',
            ChatMessage ''s1'' [text_part ''again'']]
           empty_state world0 of
      Some (Inr st, w) \<Rightarrow> transcripts st = [(''s1'', [''again''])]
    | _ \<Rightarrow> False)"
proof -
  let ?e = "example_env accepting_service (ticking_clock 1767225599000)"
  let ?cfg = default_plugin_config
  let ?c = example_client
  have "\<exists>st' parts' w'.
      chat_message ?e ?cfg ?c ''s1'' [text_part ''hi''] empty_state world0
        = Some (Inr (st', parts'), w')
      \<and> well_formed st'
      \<and> (trim (user_text [text_part ''hi'']) \<noteq> []
            \<and> map_of (conversations empty_state) ''s1'' = None \<longrightarrow>
          map_of (conversations st') ''s1''
            = Some \<lparr>messages = [\<lparr>msg_role = ''user'', msg_content = user_text [text_part ''hi''],
                                 msg_timestamp = clock ?e (Suc (ticks world0))\<rparr>],
                    startTime = clock ?e (ticks world0)\<rparr>)
      \<and> (\<forall>state. trim (user_text [text_part ''hi'']) \<noteq> []
            \<and> map_of (conversations empty_state) ''s1'' = Some state \<longrightarrow>
          map_of (conversations st') ''s1''
            = Some (state\<lparr>messages := messages state
                       @ [\<lparr>msg_role = ''user'', msg_content = user_text [text_part ''hi''],
                           msg_timestamp = clock ?e (ticks world0)\<rparr>]\<rparr>))
      \<and> (\<forall>other. other \<noteq> ''s1'' \<longrightarrow>
             map_of (conversations st') other = map_of (conversations empty_state) other)"
    by (rule chat_message_tracks [OF well_formed_empty])
  then obtain st1 p1 w1 where m1: "chat_message ?e ?cfg ?c ''s1'' [text_part ''hi''] empty_state world0
        = Some (Inr (st1, p1), w1)" and wf1: "well_formed st1"
    by (elim exE conjE) (rule that, assumption+)
  have "\<exists>st' w'. event_handler ?e ?c ''session.idle'' st1 w1 = Some (Inr st', w')
        \<and> conversations st' = []
        \<and> set (injectedSessions st') \<inter> fst ` set (conversations st1) = {}"
    by (rule event_handler_flushes [OF answering_accepting wf1 disjI1 [OF refl]])
  then obtain st2 w2 where ev: "event_handler ?e ?c ''session.idle'' st1 w1 = Some (Inr st2, w2)"
      and empty2: "conversations st2 = []"
    by (elim exE conjE) (rule that, assumption+)
  have wf2: "well_formed st2" using empty2 by (simp add: well_formed_def)
  have absent2: "map_of (conversations st2) ''s1'' = None" using empty2 by simp
  have "\<exists>st' parts' w'.
      chat_message ?e ?cfg ?c ''s1'' [text_part ''again''] st2 w2
        = Some (Inr (st', parts'), w')
      \<and> well_formed st'
      \<and> (trim (user_text [text_part ''again'']) \<noteq> []
            \<and> map_of (conversations st2) ''s1'' = None \<longrightarrow>
          map_of (conversations st') ''s1''
            = Some \<lparr>messages = [\<lparr>msg_role = ''user'', msg_content = user_text [text_part ''again''],
                                 msg_timestamp = clock ?e (Suc (ticks w2))\<rparr>],
                    startTime = clock ?e (ticks w2)\<rparr>)
      \<and> (\<forall>state. trim (user_text [text_part ''again'']) \<noteq> []
            \<and> map_of (conversations st2) ''s1'' = Some state \<longrightarrow>
          map_of (conversations st') ''s1''
            = Some (state\<lparr>messages := messages state
                       @ [\<lparr>msg_role = ''user'', msg_content = user_text [text_part ''again''],
                           msg_timestamp = clock ?e (ticks w2)\<rparr>]\<rparr>))
      \<and> (\<forall>other. other \<noteq> ''s1'' \<longrightarrow>
             map_of (conversations st') other = map_of (conversations st2) other)"
    by (rule chat_message_tracks [OF wf2])
  then obtain st3 p3 w3 where m3: "chat_message ?e ?cfg ?c ''s1'' [text_part ''again''] st2 w2
        = Some (Inr (st3, p3), w3)"
    and wf3: "well_formed st3"
    and new: "trim (user_text [text_part ''again'']) \<noteq> []
            \<and> map_of (conversations st2) ''s1'' = None \<longrightarrow>
          map_of (conversations st3) ''s1''
            = Some \<lparr>messages = [\<lparr>msg_role = ''user'', msg_content = user_text [text_part ''again''],
                                 msg_timestamp = clock ?e (Suc (ticks w2))\<rparr>],
                    startTime = clock ?e (ticks w2)\<rparr>"
    and others: "\<forall>other. other \<noteq> ''s1'' \<longrightarrow>
          map_of (conversations st3) other = map_of (conversations st2) other"
    by (elim exE conjE) (rule that, assumption+)
  have s1: "map_of (conversations st3) ''s1''
      = Some \<lparr>messages = [\<lparr>msg_role = ''user'', msg_content = ''again'',
                           msg_timestamp = clock ?e (Suc (ticks w2))\<rparr>],
              startTime = clock ?e (ticks w2)\<rparr>"
    using new [THEN mp, OF conjI, OF nonblank_again absent2] unfolding user_text_single .
  have keys: "set (map fst (conversations st3)) = {''s1''}"
  proof -
    have "dom (map_of (conversations st3)) = {''s1''}"
      using s1 others absent2 empty2 by (auto simp: dom_def)
    then show ?thesis by (simp add: dom_map_of_conv_image_fst)
  qed
  have dist: "distinct (map fst (conversations st3))" using wf3 by (simp add: well_formed_def)
  have "length (conversations st3) = 1"
    using keys dist by (metis One_nat_def card.empty card_insert_if distinct_card empty_iff
        finite.emptyI length_map)
  then obtain kv where one: "conversations st3 = [kv]"
    by (cases "conversations st3") auto
  then have "fst kv = ''s1''" using keys by simp
  moreover have "map_of [kv] ''s1'' = Some (snd kv)" using \<open>fst kv = ''s1''\<close> by (cases kv) simp
  ultimately have tr3: "transcripts st3 = [(''s1'', [''again''])]"
    using s1 one by (simp add: transcripts_def)
  have step1: "plugin_step ?e ?cfg ?c (ChatMessage ''s1'' [text_part ''hi'']) empty_state world0
      = Some (Inr st1, w1)"
    using m1 by (simp add: plugin_step_def io_bind_def io_return_def)
  have step2: "plugin_step ?e ?cfg ?c (HostEvent ''session.idle'') st1 w1 = Some (Inr st2, w2)"
    using ev by (simp add: plugin_step_def)
  have step3: "plugin_step ?e ?cfg ?c (ChatMessage ''s1'' [text_part ''again'']) st2 w2
      = Some (Inr st3, w3)"
    using m3 by (simp add: plugin_step_def io_bind_def io_return_def)
  have first: "run_plugin ?e ?cfg ?c
      [ChatMessage ''s1'' [text_part ''hi''], HostEvent ''session.idle''] empty_state world0
      = Some (Inr st2, w2)"
    by (simp only: run_plugin.simps step1 step2 option.case sum.case prod.case)
  have second: "run_plugin ?e ?cfg ?c
      [ChatMessage ''s1'' [text_part ''hi''], HostEvent ''session.idle'',
       ChatMessage ''s1'' [text_part ''again'']] empty_state world0
      = Some (Inr st3, w3)"
    by (simp only: run_plugin.simps step1 step2 step3 option.case sum.case prod.case)
  have tr2: "transcripts st2 = []" using empty2 by (simp add: transcripts_def)
  show ?thesis
    by (simp only: first second option.case sum.case prod.case tr2 tr3 simp_thms)
qed

end
